theory Spec2Isabelle
  imports Complex_Main "HOL-Library.Word"
begin

section \<open>Data model\<close>

text \<open>
  The extension's numbers are JavaScript doubles. Character counts, key codes and
  lengths are non-negative integers and are modelled as \<open>nat\<close>; timestamps,
  durations, ratios and confidences are modelled as exact rationals (\<open>rat\<close>), so
  the rounding of the last bit of a double is not part of the model. The comparisons of
  a ratio of two counts with \<open>0.1\<close>, \<open>0.5\<close> and \<open>0.9\<close> agree with the exact ones as
  long as the counts stay below \<open>10^15\<close>: a quotient that differs from the constant
  differs from it by more than the rounding of a double.

  JavaScript strings are modelled as \<open>string\<close>; \<open>null\<close> and \<open>undefined\<close> as
  \<open>None\<close>.
\<close>

datatype event_type = Keydown | Keyup | Paste | Ai_assistant

datatype input_method = Method_paste | Method_ai_assistant

record KeystrokeEvent =
  event_type :: event_type
  key_code :: nat
  key_char :: "string option"
  client_timestamp :: rat
  input_method :: "input_method option"

record PasteEvent =
  pasted_length :: nat
  paste_timestamp :: rat

record Verification =
  class_label :: string
  verdict :: "string option"
  confidence :: rat
  is_human :: bool

text \<open>\<open>SessionState\<close> of \<open>background/index.ts\<close>, and its initial value \<open>state\<close>.\<close>

record SessionState =
  sessionId :: "string option"
  domain :: "string option"
  keystrokes :: "KeystrokeEvent list"
  pasteEvents :: "PasteEvent list"
  totalTypedChars :: nat
  totalPastedChars :: nat
  totalAiChars :: nat
  startTime :: "rat option"
  isRecording :: bool
  signatureCount :: nat
  lastVerification :: "Verification option"

definition state :: SessionState where
  "state = \<lparr>sessionId = None, domain = None, keystrokes = [], pasteEvents = [],
     totalTypedChars = 0, totalPastedChars = 0, totalAiChars = 0, startTime = None,
     isRecording = False, signatureCount = 0, lastVerification = None\<rparr>"

text \<open>Truthiness of a nullable string: \<open>null\<close> and the empty string are falsy.\<close>

definition truthy :: "string option \<Rightarrow> bool" where
  "truthy s = (case s of None \<Rightarrow> False | Some t \<Rightarrow> t \<noteq> [])"

text \<open>\<open>x || d\<close> for a nullable string \<open>x\<close>.\<close>

definition orElse :: "string option \<Rightarrow> string \<Rightarrow> string" where
  "orElse x d = (case x of None \<Rightarrow> d | Some t \<Rightarrow> if t = [] then d else t)"

text \<open>\<open>Math.round\<close>: the nearest integer, a tie going up.\<close>

definition Math_round :: "rat \<Rightarrow> int" where
  "Math_round x = \<lfloor>x + 1 / 2\<rfloor>"

section \<open>Background worker: statistics and verdict\<close>

record Stats =
  keystrokeCount :: nat
  avgDwell :: rat
  avgFlight :: rat
  wpm :: rat
  dwellTimes :: "rat list"
  flightTimes :: "rat list"
  stats_totalTypedChars :: nat
  stats_totalPastedChars :: nat
  stats_totalAiChars :: nat
  pasteRatio :: rat
  aiRatio :: rat
  pasteCount :: nat
  currentVerdict :: string
  currentConfidence :: rat

text \<open>The inner loop of \<open>calculateStats\<close>: the first later keyup with the same key code.\<close>

fun matchingKeyup :: "KeystrokeEvent \<Rightarrow> KeystrokeEvent list \<Rightarrow> KeystrokeEvent option" where
  "matchingKeyup e [] = None"
| "matchingKeyup e (x # xs) =
     (if event_type x = Keyup \<and> key_code x = key_code e then Some x
      else matchingKeyup e xs)"

text \<open>
  The outer loop of \<open>calculateStats\<close> over the events from index \<open>i\<close> on, carrying
  \<open>lastKeyup\<close>; it returns the dwell and the flight times pushed from there on.
\<close>

fun timingLoop :: "rat \<Rightarrow> KeystrokeEvent list \<Rightarrow> rat list \<times> rat list" where
  "timingLoop lastKeyup [] = ([], [])"
| "timingLoop lastKeyup (e # es) =
     (if event_type e = Keydown then
        (case timingLoop lastKeyup es of (ds, fs) \<Rightarrow>
          ((case matchingKeyup e es of
              Some u \<Rightarrow> [client_timestamp u - client_timestamp e]
            | None \<Rightarrow> []) @ ds,
           (if lastKeyup > 0 then [client_timestamp e - lastKeyup] else []) @ fs))
      else if event_type e = Keyup then timingLoop (client_timestamp e) es
      else timingLoop lastKeyup es)"

definition average :: "rat list \<Rightarrow> rat" where
  "average xs = (if length xs > 0 then sum_list xs / of_nat (length xs) else 0)"

text \<open>\<open>a / b\<close> of two counts, used only where the source has checked \<open>b > 0\<close>.\<close>

definition ratio :: "nat \<Rightarrow> nat \<Rightarrow> rat" where
  "ratio a b = of_nat a / of_nat b"

text \<open>\<open>state.lastVerification?.class_label || "unknown"\<close> and its two siblings.\<close>

definition lastLabelOr :: "Verification option \<Rightarrow> string \<Rightarrow> string" where
  "lastLabelOr lv d =
     (case lv of None \<Rightarrow> d | Some v \<Rightarrow> if class_label v = [] then d else class_label v)"

definition lastConfidenceOr :: "Verification option \<Rightarrow> rat \<Rightarrow> rat" where
  "lastConfidenceOr lv d =
     (case lv of None \<Rightarrow> d | Some v \<Rightarrow> if confidence v = 0 then d else confidence v)"

definition lastIsHumanOr :: "Verification option \<Rightarrow> bool" where
  "lastIsHumanOr lv = (case lv of None \<Rightarrow> False | Some v \<Rightarrow> is_human v)"

text \<open>
  The verdict block of \<open>calculateStats\<close> (lines 149 to 187), from the three counters,
  the number of keydown events and the last verification.
\<close>

definition statsVerdict :: "nat \<Rightarrow> nat \<Rightarrow> nat \<Rightarrow> nat \<Rightarrow> Verification option \<Rightarrow> string \<times> rat" where
  "statsVerdict typed pasted ai nkeys lv =
     (let totalChars = typed + (pasted + ai) in
      if totalChars = 0 \<and> nkeys = 0 then (''waiting'', 0)
      else if totalChars < 20 then (''waiting'', min (of_nat totalChars / 20) (9 / 10))
      else
        let pctHuman = ratio typed totalChars;
            pctPaste = ratio pasted totalChars;
            pctAi = ratio ai totalChars
        in if pctPaste > 1 / 10 then
             (if pctPaste > 1 / 2 then ''paste'' else ''paste_detected'',
              min (1 / 2 + pctPaste * (1 / 2)) (99 / 100))
           else if pctAi > 1 / 10 then
             (''ai_assisted'', min (1 / 2 + pctAi * (1 / 2)) (99 / 100))
           else if pctHuman \<ge> 9 / 10 then
             (''human_organic'', min (7 / 10 + pctHuman * (3 / 10)) (99 / 100))
           else (lastLabelOr lv ''unknown'', lastConfidenceOr lv (1 / 2)))"

text \<open>\<open>calculateStats\<close>; \<open>now\<close> is the value of \<open>Date.now()\<close>.\<close>

definition calculateStats :: "SessionState \<Rightarrow> rat \<Rightarrow> Stats" where
  "calculateStats s now =
     (let events = keystrokes s;
          keystrokeCount = length (filter (\<lambda>e. event_type e = Keydown) events);
          timing = timingLoop 0 events;
          dwellTimes = fst timing;
          flightTimes = snd timing;
          duration = (case startTime s of
                        None \<Rightarrow> 0
                      | Some t \<Rightarrow> if t = 0 then 0 else (now - t) / 1000 / 60);
          wpm = (if duration > 0 then of_nat keystrokeCount / 5 / duration else 0);
          totalForeignChars = totalPastedChars s + totalAiChars s;
          totalChars = totalTypedChars s + totalForeignChars;
          v = statsVerdict (totalTypedChars s) (totalPastedChars s) (totalAiChars s)
                keystrokeCount (lastVerification s)
      in \<lparr>keystrokeCount = keystrokeCount,
          avgDwell = average dwellTimes,
          avgFlight = average flightTimes,
          wpm = wpm,
          dwellTimes = dwellTimes,
          flightTimes = flightTimes,
          stats_totalTypedChars = totalTypedChars s,
          stats_totalPastedChars = totalPastedChars s,
          stats_totalAiChars = totalAiChars s,
          pasteRatio = (if totalChars > 0 then ratio (totalPastedChars s) totalChars else 0),
          aiRatio = (if totalChars > 0 then ratio (totalAiChars s) totalChars else 0),
          pasteCount = length (pasteEvents s),
          currentVerdict = fst v,
          currentConfidence = snd v\<rparr>)"

section \<open>Background worker: message handlers\<close>

text \<open>
  \<open>START_SESSION\<close>. \<open>host\<close> is the payload's \<open>domain\<close>, \<open>remote\<close> the outcome of
  \<open>startSession(domain)\<close> (\<open>Inr\<close> the session's id, \<open>Inl\<close> when the call throws), \<open>uuid\<close>
  the value of \<open>crypto.randomUUID()\<close> and \<open>now\<close> that of \<open>Date.now()\<close>. The two branches
  of the source assign the same fields.
\<close>

definition handle_START_SESSION ::
  "SessionState \<Rightarrow> string \<Rightarrow> unit + string \<Rightarrow> string \<Rightarrow> rat \<Rightarrow> SessionState" where
  "handle_START_SESSION s host remote uuid now =
     (case remote of
        Inr sid \<Rightarrow>
          s\<lparr>sessionId := Some sid, domain := Some host, startTime := Some now,
            isRecording := True, keystrokes := [], pasteEvents := [],
            totalTypedChars := 0, totalPastedChars := 0\<rparr>
      | Inl _ \<Rightarrow>
          s\<lparr>sessionId := Some uuid, domain := Some host, startTime := Some now,
            isRecording := True, keystrokes := [], pasteEvents := [],
            totalTypedChars := 0, totalPastedChars := 0\<rparr>)"

definition handle_END_SESSION :: "SessionState \<Rightarrow> SessionState" where
  "handle_END_SESSION s = s\<lparr>isRecording := False\<rparr>"

definition handle_STOP_RECORDING :: "SessionState \<Rightarrow> SessionState" where
  "handle_STOP_RECORDING s = s\<lparr>isRecording := False\<rparr>"

text \<open>The body of \<open>batch.events.forEach\<close> in \<open>KEYSTROKE_BATCH\<close> (lines 306 to 324).\<close>

definition countEvent :: "SessionState \<Rightarrow> KeystrokeEvent \<Rightarrow> SessionState" where
  "countEvent s e =
     (if event_type e = Keydown \<and> truthy (key_char e)
          \<and> input_method e \<noteq> Some Method_ai_assistant
      then s\<lparr>totalTypedChars := totalTypedChars s + 1\<rparr>
      else if event_type e = Ai_assistant
      then s\<lparr>totalAiChars := totalAiChars s + (if key_code e = 0 then 1 else key_code e)\<rparr>
      else s)"

text \<open>The real-time verdict of \<open>KEYSTROKE_BATCH\<close> (lines 326 to 365).\<close>

definition batchVerdict :: "SessionState \<Rightarrow> SessionState" where
  "batchVerdict s =
     (let totalForeign = totalPastedChars s + totalAiChars s;
          totalChars = totalTypedChars s + totalForeign
      in if totalChars > 0 then
           let pctHuman = ratio (totalTypedChars s) totalChars;
               pctPaste = ratio (totalPastedChars s) totalChars;
               pctAI = ratio (totalAiChars s) totalChars
           in if pctPaste > 1 / 10 then
                s\<lparr>lastVerification := Some
                   \<lparr>class_label = (if pctPaste > 1 / 2 then ''paste'' else ''paste_detected''),
                    verdict = Some ''paste_detected'', confidence = pctPaste,
                    is_human = False\<rparr>\<rparr>
              else if pctAI > 1 / 10 then
                s\<lparr>lastVerification := Some
                   \<lparr>class_label = ''ai_assisted'', verdict = Some ''ai_assisted'',
                    confidence = pctAI, is_human = False\<rparr>\<rparr>
              else if pctHuman \<ge> 9 / 10 then
                s\<lparr>lastVerification := Some
                   \<lparr>class_label = ''human_organic'', verdict = Some ''human_verified'',
                    confidence = pctHuman, is_human = True\<rparr>\<rparr>
              else s
         else s)"

definition handle_KEYSTROKE_BATCH :: "SessionState \<Rightarrow> KeystrokeEvent list \<Rightarrow> SessionState" where
  "handle_KEYSTROKE_BATCH s events =
     batchVerdict (foldl countEvent (s\<lparr>keystrokes := keystrokes s @ events\<rparr>) events)"

definition handle_PASTE_EVENT :: "SessionState \<Rightarrow> PasteEvent \<Rightarrow> SessionState" where
  "handle_PASTE_EVENT s ev =
     (let s1 = s\<lparr>pasteEvents := pasteEvents s @ [ev],
                 totalPastedChars := totalPastedChars s + pasted_length ev\<rparr>;
          totalForeign = totalPastedChars s1 + totalAiChars s1;
          totalChars = totalTypedChars s1 + totalForeign
      in if totalChars > 0 \<and> ratio (totalPastedChars s1) totalChars > 1 / 10 then
           s1\<lparr>lastVerification := Some
              \<lparr>class_label = (if ratio (totalPastedChars s1) totalChars > 1 / 2
                               then ''paste'' else ''paste_detected''),
               verdict = Some ''paste_detected'',
               confidence = min (99 / 100) (1 / 2 + ratio (totalPastedChars s1) totalChars * (1 / 2)),
               is_human = False\<rparr>\<rparr>
         else s1)"

text \<open>
  \<open>VERIFY_SESSION\<close>. The \<open>catch\<close> block (lines 470 to 561) is the local verification:
  it reads the statistics and returns a label, \<open>is_human\<close> and a confidence.
\<close>

definition localVerification :: "Stats \<Rightarrow> string \<times> bool \<times> rat" where
  "localVerification stats =
     (let isPasteDetected = pasteRatio stats > 1 / 10;
          isAiDetected = aiRatio stats > 1 / 10;
          hasSignificantPaste = stats_totalPastedChars stats > 50;
          hasSignificantAi = stats_totalAiChars stats > 50;
          hasNormalDwell = avgDwell stats > 30 \<and> avgDwell stats < 500;
          hasNormalFlight = avgFlight stats > 50 \<and> avgFlight stats < 1000;
          hasReasonableWpm = wpm stats > 5 \<and> wpm stats < 150;
          hasEnoughKeystrokes = keystrokeCount stats > 20
      in if isPasteDetected \<or> hasSignificantPaste then
           (if pasteRatio stats > 1 / 2 then ''paste'' else ''paste_detected'', False,
            min (99 / 100) (1 / 2 + pasteRatio stats * (1 / 2)))
         else if isAiDetected \<or> hasSignificantAi then
           (''ai_assisted'', False, min (99 / 100) (1 / 2 + aiRatio stats * (1 / 2)))
         else if hasEnoughKeystrokes \<and> hasNormalDwell \<and> hasNormalFlight \<and> hasReasonableWpm then
           (''human_organic'', True,
            (if hasNormalDwell then 3 / 10 else 0) + (if hasNormalFlight then 3 / 10 else 0)
            + (if hasReasonableWpm then 2 / 10 else 0)
            + min (2 / 10) (of_nat (keystrokeCount stats) / 500))
         else (''unknown'', False, 3 / 10))"

record RemoteResult =
  remote_verdict :: string
  remote_confidence_score :: rat
  remote_is_human :: bool

record LocalResult =
  local_is_human :: bool
  local_confidence_score :: rat
  local_class_label :: string
  local_paste_detected :: bool
  local_paste_ratio :: rat
  local_paste_count :: nat

datatype VerifyResponse =
    No_active_session
  | Remote_response RemoteResult
  | Local_response LocalResult

text \<open>
  \<open>payload_sid\<close> and \<open>text_content\<close> are the payload's fields; \<open>remote\<close> is the outcome of
  the awaited \<open>verifyCombined\<close> or \<open>verifySession\<close> (\<open>Inl\<close> when it throws).
\<close>

definition handle_VERIFY_SESSION ::
  "SessionState \<Rightarrow> string option \<Rightarrow> string option \<Rightarrow> unit + RemoteResult \<Rightarrow> rat
   \<Rightarrow> SessionState \<times> VerifyResponse" where
  "handle_VERIFY_SESSION s payload_sid text_content remote now =
     (let sid = (if truthy payload_sid then payload_sid else sessionId s);
          textContent = (case text_content of None \<Rightarrow> [] | Some t \<Rightarrow> t)
      in if \<not> truthy sid then (s, No_active_session)
         else case remote of
           Inr result \<Rightarrow>
             if textContent \<noteq> [] \<and> length textContent \<ge> 50 then
               (s\<lparr>lastVerification := Some
                  \<lparr>class_label = remote_verdict result, verdict = None,
                   confidence = remote_confidence_score result,
                   is_human = remote_is_human result\<rparr>\<rparr>,
                Remote_response result)
             else
               (s\<lparr>lastVerification := Some
                  \<lparr>class_label = (if remote_is_human result then ''human_organic'' else ''unknown''),
                   verdict = None,
                   confidence = remote_confidence_score result,
                   is_human = remote_is_human result\<rparr>\<rparr>,
                Remote_response result)
         | Inl _ \<Rightarrow>
             (let stats = calculateStats s now;
                  r = localVerification stats;
                  classLabel = fst r; isHuman = fst (snd r); conf = snd (snd r)
              in (s\<lparr>lastVerification := Some
                    \<lparr>class_label = classLabel, verdict = None, confidence = conf,
                     is_human = isHuman\<rparr>\<rparr>,
                  Local_response
                    \<lparr>local_is_human = isHuman, local_confidence_score = conf,
                     local_class_label = classLabel,
                     local_paste_detected =
                       (pasteRatio stats > 1 / 10 \<or> stats_totalPastedChars stats > 50),
                     local_paste_ratio = pasteRatio stats,
                     local_paste_count = pasteCount stats\<rparr>)))"

text \<open>\<open>createHistogram\<close> (lines 778 to 796).\<close>

text \<open>
  The index \<open>Math.min(bins - 1, Math.max(0, Math.floor((v - min) / binSize)))\<close>. The
  rationals have no infinity and no NaN, so the cases where \<open>binSize\<close> is zero, infinite
  or NaN are written out: \<open>None\<close> is the index NaN.
\<close>

definition binIndex :: "nat \<Rightarrow> rat \<Rightarrow> rat \<Rightarrow> rat \<Rightarrow> int option" where
  "binIndex bins mn mx v =
     (if mx = mn then
        (if bins = 0 then None
         else if v > mn then Some (int bins - 1)
         else if v < mn then Some 0
         else None)
      else if bins = 0 then Some (- 1)
      else Some (min (int bins - 1) (max 0 \<lfloor>(v - mn) / ((mx - mn) / of_nat bins)\<rfloor>)))"

text \<open>
  \<open>histogram[binIndex]++\<close>: an index that is no element of the array (negative, or NaN)
  sets a property of the array object and leaves its elements as they are.
\<close>

definition increment :: "nat list \<Rightarrow> int option \<Rightarrow> nat list" where
  "increment h oi =
     (case oi of
        None \<Rightarrow> h
      | Some i \<Rightarrow> if 0 \<le> i \<and> i < int (length h) then h[nat i := h ! nat i + 1] else h)"

definition createHistogram :: "rat list \<Rightarrow> nat \<Rightarrow> rat \<Rightarrow> rat \<Rightarrow> nat list" where
  "createHistogram values bins mn mx =
     foldl (\<lambda>h v. increment h (binIndex bins mn mx v)) (replicate bins 0) values"

section \<open>The platform: Web Crypto, base64 and JSON\<close>

text \<open>
  \<open>crypto.subtle\<close>, \<open>btoa\<close>, \<open>atob\<close> and \<open>JSON.stringify\<close> belong to the browser, not
  to the repository; the code is modelled over a record of them. A call that throws
  returns \<open>None\<close>. \<open>generateKey n\<close> is the key pair that the \<open>n\<close>-th call of
  \<open>crypto.subtle.generateKey\<close> returns, so a caller has to thread the number of calls
  made so far. Keys are opaque (\<open>'pk\<close>, \<open>'sk\<close>).
\<close>

type_synonym bytes = "8 word list"

record Metrics =
  total_keystrokes :: nat
  avg_dwell_ms :: int
  avg_flight_ms :: int
  metrics_wpm :: int
  text_length :: nat
  total_typed_chars :: nat
  total_pasted_chars :: nat
  total_ai_chars :: nat

record ('pk, 'sk) WebCrypto =
  digest_SHA256 :: "string \<Rightarrow> bytes"
  generateKey :: "nat \<Rightarrow> ('pk \<times> 'sk) option"
  exportKey_spki :: "'pk \<Rightarrow> bytes option"
  exportKey_pkcs8 :: "'sk \<Rightarrow> bytes option"
  importKey_spki :: "bytes \<Rightarrow> 'pk option"
  importKey_pkcs8 :: "bytes \<Rightarrow> 'sk option"
  sign_ECDSA :: "'sk \<Rightarrow> string \<Rightarrow> bytes option"
  verify_ECDSA :: "'pk \<Rightarrow> bytes \<Rightarrow> string \<Rightarrow> bool option"
  btoa :: "bytes \<Rightarrow> string"
  atob :: "string \<Rightarrow> bytes option"
  JSON_stringify :: "string option \<Rightarrow> Metrics option \<Rightarrow> string option \<Rightarrow> string"

text \<open>
  \<open>JSON_stringify h m i\<close> is \<open>JSON.stringify({content_hash: h, metrics: m, session_id: i})\<close>.
\<close>

section \<open>Background worker: the exported report\<close>

record Classification =
  report_verdict :: string
  report_class_label :: string
  report_confidence :: rat
  report_is_human :: bool
  paste_ratio :: rat
  ai_ratio :: rat
  human_ratio :: rat

record SessionInfo =
  session_id :: string
  session_domain :: string
  duration_ms :: rat

record TimingData =
  dwell_histogram :: "nat list"
  flight_histogram :: "nat list"

record SignatureBlock =
  algorithm :: string
  public_key :: string
  signature_value :: string
  signed_at :: string

record HumanSignData =
  version :: string
  generated_at :: string
  session :: SessionInfo
  metrics :: Metrics
  classification :: Classification
  timing_data :: TimingData
  content_hash :: string
  signature :: SignatureBlock

text \<open>The classification of \<open>DOWNLOAD_COMBINED\<close> (lines 592 to 654).\<close>

definition downloadClassification ::
  "nat \<Rightarrow> nat \<Rightarrow> nat \<Rightarrow> Verification option \<Rightarrow> Classification" where
  "downloadClassification typed pasted ai lv =
     (let totalForeign = pasted + ai;
          totalChars = typed + totalForeign
      in if totalChars > 20 then
           let pctHuman = ratio typed totalChars;
               pctPaste = ratio pasted totalChars;
               pctAi = ratio ai totalChars;
               r = (if pctPaste > 1 / 10 then
                      (if pctPaste > 1 / 2 then ''paste'' else ''paste_detected'', False,
                       min (1 / 2 + pctPaste * (1 / 2)) (99 / 100))
                    else if pctAi > 1 / 10 then
                      (''ai_assisted'', False, min (1 / 2 + pctAi * (1 / 2)) (99 / 100))
                    else if pctHuman \<ge> 9 / 10 then
                      (''human_organic'', True, min (7 / 10 + pctHuman * (3 / 10)) (99 / 100))
                    else (lastLabelOr lv ''unknown'', lastIsHumanOr lv,
                          lastConfidenceOr lv (1 / 2)))
           in \<lparr>report_verdict = fst r, report_class_label = fst r,
               report_confidence = snd (snd r), report_is_human = fst (snd r),
               paste_ratio = pctPaste, ai_ratio = pctAi, human_ratio = pctHuman\<rparr>
         else
           \<lparr>report_verdict = ''unverified'', report_class_label = ''unverified'',
            report_confidence = 0, report_is_human = False,
            paste_ratio = 0, ai_ratio = 0, human_ratio = 1\<rparr>)"

text \<open>\<open>b.toString(16).padStart(2, "0")\<close> of a byte, and the hex string of a buffer.\<close>

definition hexDigit :: "nat \<Rightarrow> char" where
  "hexDigit n = ''0123456789abcdef'' ! n"

definition byteToHex :: "8 word \<Rightarrow> string" where
  "byteToHex b = [hexDigit (unat b div 16), hexDigit (unat b mod 16)]"

definition bufferToHex :: "bytes \<Rightarrow> string" where
  "bufferToHex buffer = concat (map byteToHex buffer)"

text \<open>
  The \<open>try\<close> block of \<open>DOWNLOAD_COMBINED\<close> (lines 698 to 735): it fills the signature
  block of the report and counts the signature. Whatever throws is caught and logged,
  and the fields assigned before that keep their values. \<open>dataToSign\<close> is the string of
  lines 717 to 721.
\<close>

definition dataToSign :: "('pk, 'sk) WebCrypto \<Rightarrow> HumanSignData \<Rightarrow> string" where
  "dataToSign env d =
     JSON_stringify env (Some (content_hash d)) (Some (metrics d)) (Some (session_id (session d)))"

definition signReport ::
  "('pk, 'sk) WebCrypto \<Rightarrow> nat \<Rightarrow> HumanSignData \<Rightarrow> HumanSignData \<times> bool" where
  "signReport env calls d =
     (case generateKey env calls of
        None \<Rightarrow> (d, False)
      | Some (publicKey, privateKey) \<Rightarrow>
          (case exportKey_spki env publicKey of
             None \<Rightarrow> (d, False)
           | Some publicKeyBuffer \<Rightarrow>
               (let d1 = d\<lparr>signature := (signature d)\<lparr>public_key := btoa env publicKeyBuffer\<rparr>\<rparr>;
                    signed = sign_ECDSA env privateKey (dataToSign env d1)
                in case signed of
                     None \<Rightarrow> (d1, False)
                   | Some signatureData \<Rightarrow>
                       (d1\<lparr>signature := (signature d1)\<lparr>signature_value := btoa env signatureData\<rparr>\<rparr>,
                        True))))"

text \<open>
  \<open>DOWNLOAD_COMBINED\<close>, up to the report that is written into the archive as
  \<open>metadata.humanSign\<close>. \<open>humanSignData\<close> is the report as lines 656 to 696 build it,
  with the content hash and an empty signature block. \<open>now\<close> is \<open>Date.now()\<close>,
  \<open>isoDate\<close> is \<open>new Date().toISOString()\<close> and \<open>uuid\<close> is \<open>crypto.randomUUID()\<close>.
\<close>

definition humanSignData ::
  "('pk, 'sk) WebCrypto \<Rightarrow> SessionState \<Rightarrow> string option \<Rightarrow> rat \<Rightarrow> string \<Rightarrow> string
   \<Rightarrow> HumanSignData" where
  "humanSignData env s payload_text now isoDate uuid =
     (let textContent = (case payload_text of None \<Rightarrow> [] | Some t \<Rightarrow> t);
          stats = calculateStats s now
      in \<lparr>version = ''1.0'',
          generated_at = isoDate,
          session =
            \<lparr>session_id = orElse (sessionId s) uuid,
             session_domain = orElse (domain s) ''unknown'',
             duration_ms = (case startTime s of
                              None \<Rightarrow> 0
                            | Some t \<Rightarrow> if t = 0 then 0 else now - t)\<rparr>,
          metrics =
            \<lparr>total_keystrokes = keystrokeCount stats,
             avg_dwell_ms = Math_round (avgDwell stats),
             avg_flight_ms = Math_round (avgFlight stats),
             metrics_wpm = Math_round (wpm stats),
             text_length = length textContent,
             total_typed_chars = totalTypedChars s,
             total_pasted_chars = totalPastedChars s,
             total_ai_chars = totalAiChars s\<rparr>,
          classification =
            downloadClassification (totalTypedChars s) (totalPastedChars s) (totalAiChars s)
              (lastVerification s),
          timing_data =
            \<lparr>dwell_histogram = createHistogram (dwellTimes stats) 10 0 200,
             flight_histogram = createHistogram (flightTimes stats) 10 0 300\<rparr>,
          content_hash = bufferToHex (digest_SHA256 env textContent),
          signature =
            \<lparr>algorithm = ''ECDSA-P256-SHA256'', public_key = [], signature_value = [],
             signed_at = isoDate\<rparr>\<rparr>)"

text \<open>
  \<open>calls\<close> is the number of calls of \<open>generateKey\<close> made so far. The result is the new
  state, the new number of calls and the report.
\<close>

definition handle_DOWNLOAD_COMBINED ::
  "('pk, 'sk) WebCrypto \<Rightarrow> nat \<Rightarrow> SessionState \<Rightarrow> string option \<Rightarrow> rat \<Rightarrow> string \<Rightarrow> string
   \<Rightarrow> SessionState \<times> nat \<times> HumanSignData" where
  "handle_DOWNLOAD_COMBINED env calls s payload_text now isoDate uuid =
     (let signed = signReport env calls (humanSignData env s payload_text now isoDate uuid)
      in ((if snd signed then s\<lparr>signatureCount := signatureCount s + 1\<rparr> else s),
          calls + 1,
          fst signed))"

section \<open>The key store of \<open>crypto/index.ts\<close>\<close>

record KeyPairExport =
  exported_publicKey :: string
  exported_privateKey :: string

definition exportKeyPair :: "('pk, 'sk) WebCrypto \<Rightarrow> 'pk \<times> 'sk \<Rightarrow> KeyPairExport option" where
  "exportKeyPair env keyPair =
     (case exportKey_spki env (fst keyPair) of
        None \<Rightarrow> None
      | Some publicKeyBuffer \<Rightarrow>
          (case exportKey_pkcs8 env (snd keyPair) of
             None \<Rightarrow> None
           | Some privateKeyBuffer \<Rightarrow>
               Some \<lparr>exported_publicKey = btoa env publicKeyBuffer,
                     exported_privateKey = btoa env privateKeyBuffer\<rparr>))"

definition importKeyPair :: "('pk, 'sk) WebCrypto \<Rightarrow> KeyPairExport \<Rightarrow> ('pk \<times> 'sk) option" where
  "importKeyPair env exported =
     (case atob env (exported_publicKey exported) of
        None \<Rightarrow> None
      | Some publicKeyBuffer \<Rightarrow>
          (case atob env (exported_privateKey exported) of
             None \<Rightarrow> None
           | Some privateKeyBuffer \<Rightarrow>
               (case importKey_spki env publicKeyBuffer of
                  None \<Rightarrow> None
                | Some publicKey \<Rightarrow>
                    (case importKey_pkcs8 env privateKeyBuffer of
                       None \<Rightarrow> None
                     | Some privateKey \<Rightarrow> Some (publicKey, privateKey)))))"

text \<open>
  \<open>getOrCreateKeyPair\<close> (lines 154 to 174) over \<open>chrome.storage.local\<close>'s entry
  \<open>humansign_keypair\<close> (\<open>storage\<close>) and the number of \<open>generateKey\<close> calls so far. The
  result is the key pair (\<open>None\<close> when the function throws), the new number of calls and
  the new entry.
\<close>

definition getOrCreateKeyPair ::
  "('pk, 'sk) WebCrypto \<Rightarrow> nat \<Rightarrow> KeyPairExport option
   \<Rightarrow> ('pk \<times> 'sk) option \<times> nat \<times> KeyPairExport option" where
  "getOrCreateKeyPair env calls storage =
     (let fresh = (case generateKey env calls of
                     None \<Rightarrow> (None, calls + 1, storage)
                   | Some keyPair \<Rightarrow>
                       (case exportKeyPair env keyPair of
                          None \<Rightarrow> (None, calls + 1, storage)
                        | Some exported \<Rightarrow> (Some keyPair, calls + 1, Some exported)))
      in case storage of
           None \<Rightarrow> fresh
         | Some stored \<Rightarrow>
             (case importKeyPair env stored of
                Some keyPair \<Rightarrow> (Some keyPair, calls, storage)
              | None \<Rightarrow> fresh))"

section \<open>The decoder: \<open>verifySignature\<close>\<close>

text \<open>
  The decoder reads a report with \<open>JSON.parse\<close>, so any field may be missing. These are
  the fields \<open>verifySignature\<close> touches.
\<close>

record ParsedSignature =
  parsed_public_key :: "string option"
  parsed_signature_value :: "string option"

record ParsedSession =
  parsed_id :: "string option"

record ParsedReport =
  parsed_signature :: "ParsedSignature option"
  parsed_content_hash :: "string option"
  parsed_metrics :: "Metrics option"
  parsed_session :: "ParsedSession option"

datatype VerificationStatus = Pending | Valid | Invalid | Status_none

text \<open>
  \<open>verifySignature\<close> (lines 114 to 155); the result is the value it passes to
  \<open>setVerificationStatus\<close>. \<open>signaturePublicKey\<close> and \<open>signatureValue\<close> are
  \<open>data.signature?.public_key\<close> and \<open>data.signature?.signature_value\<close>. Reading
  \<open>data.session.id\<close> of a report without \<open>session\<close> throws inside the \<open>try\<close> block.
\<close>

definition signaturePublicKey :: "ParsedReport \<Rightarrow> string option" where
  "signaturePublicKey data =
     (case parsed_signature data of None \<Rightarrow> None | Some sg \<Rightarrow> parsed_public_key sg)"

definition signatureValue :: "ParsedReport \<Rightarrow> string option" where
  "signatureValue data =
     (case parsed_signature data of None \<Rightarrow> None | Some sg \<Rightarrow> parsed_signature_value sg)"

definition verifySignature :: "('pk, 'sk) WebCrypto \<Rightarrow> ParsedReport \<Rightarrow> VerificationStatus" where
  "verifySignature env data =
     (if \<not> truthy (signaturePublicKey data) \<or> \<not> truthy (signatureValue data) then Status_none
      else
        (case atob env (orElse (signaturePublicKey data) []) of
           None \<Rightarrow> Invalid
         | Some binaryDer \<Rightarrow>
             (case importKey_spki env binaryDer of
                None \<Rightarrow> Invalid
              | Some publicKey \<Rightarrow>
                  (case atob env (orElse (signatureValue data) []) of
                     None \<Rightarrow> Invalid
                   | Some sigBytes \<Rightarrow>
                       (case parsed_session data of
                          None \<Rightarrow> Invalid
                        | Some sess \<Rightarrow>
                            (let dataToVerify =
                                   JSON_stringify env (parsed_content_hash data)
                                     (parsed_metrics data) (parsed_id sess)
                             in case verify_ECDSA env publicKey sigBytes dataToVerify of
                                  None \<Rightarrow> Invalid
                                | Some isValid \<Rightarrow> if isValid then Valid else Invalid))))))"

section \<open>Hashing of the keystroke buffer (\<open>crypto/hashing.ts\<close>)\<close>

text \<open>
  \<open>JSON.stringify\<close> of the array that \<open>serializeEvents\<close> builds: objects with a string
  \<open>t\<close> and two integers \<open>ts\<close> and \<open>c\<close>, printed in decimal.
\<close>

definition digitChar :: "nat \<Rightarrow> char" where
  "digitChar n = ''0123456789'' ! n"

function showNat :: "nat \<Rightarrow> string" where
  "showNat n = (if n < 10 then [digitChar n] else showNat (n div 10) @ [digitChar (n mod 10)])"
  by pat_completeness auto
termination
  by (relation "measure id") auto

definition showInt :: "int \<Rightarrow> string" where
  "showInt i = (if i < 0 then CHR ''-'' # showNat (nat (- i)) else showNat (nat i))"

fun eventTypeName :: "event_type \<Rightarrow> string" where
  "eventTypeName Keydown = ''keydown''"
| "eventTypeName Keyup = ''keyup''"
| "eventTypeName Paste = ''paste''"
| "eventTypeName Ai_assistant = ''ai_assistant''"

record TimingOnly =
  timing_t :: event_type
  timing_ts :: int
  timing_c :: nat

definition quoted :: "string \<Rightarrow> string" where
  "quoted x = CHR 0x22 # x @ [CHR 0x22]"

definition stringifyTiming :: "TimingOnly \<Rightarrow> string" where
  "stringifyTiming x =
     ''{'' @ quoted ''t'' @ '':'' @ quoted (eventTypeName (timing_t x)) @ '','' @
     quoted ''ts'' @ '':'' @ showInt (timing_ts x) @ '','' @
     quoted ''c'' @ '':'' @ showNat (timing_c x) @ ''}''"

fun joinComma :: "string list \<Rightarrow> string" where
  "joinComma [] = []"
| "joinComma [x] = x"
| "joinComma (x # y # zs) = x @ '','' @ joinComma (y # zs)"

definition stringifyTimingArray :: "TimingOnly list \<Rightarrow> string" where
  "stringifyTimingArray xs = ''['' @ joinComma (map stringifyTiming xs) @ '']''"

text \<open>\<open>serializeEvents\<close> (lines 53 to 61) and \<open>hashKeystrokeBuffer\<close> (lines 14 to 27).\<close>

definition timingOnly :: "KeystrokeEvent \<Rightarrow> TimingOnly" where
  "timingOnly e =
     \<lparr>timing_t = event_type e, timing_ts = Math_round (client_timestamp e),
      timing_c = key_code e\<rparr>"

definition serializeEvents :: "KeystrokeEvent list \<Rightarrow> string" where
  "serializeEvents events = stringifyTimingArray (map timingOnly events)"

definition hashKeystrokeBuffer :: "('pk, 'sk) WebCrypto \<Rightarrow> KeystrokeEvent list \<Rightarrow> string" where
  "hashKeystrokeBuffer env events = bufferToHex (digest_SHA256 env (serializeEvents events))"

section \<open>The content script: \<open>KeystrokeTracker\<close>\<close>

text \<open>
  The messages the tracker hands to \<open>chrome.runtime.sendMessage\<close> while it captures;
  the field \<open>sent\<close> of the tracker's state records them in order.
\<close>

datatype Message =
    START_SESSION string
  | END_SESSION string
  | KEYSTROKE_BATCH string "KeystrokeEvent list" nat
  | PASTE_EVENT string PasteEvent

record Tracker =
  events :: "KeystrokeEvent list"
  tracker_pasteEvents :: "PasteEvent list"
  tracker_sessionId :: "string option"
  batchSequence :: nat
  isTracking :: bool
  flushTimeoutId :: bool
  lastFlushTime :: rat
  lastInputTime :: rat
  tracker_totalTypedChars :: nat
  tracker_totalPastedChars :: nat
  aiInsertInProgress :: bool
  aiInsertIgnoreUntil :: rat
  lastAiInsertLength :: nat
  sent :: "Message list"

text \<open>The field initialisers of the class; \<open>flushTimeoutId\<close> says whether a timer is set.\<close>

definition keystrokeTracker :: Tracker where
  "keystrokeTracker =
     \<lparr>events = [], tracker_pasteEvents = [], tracker_sessionId = None, batchSequence = 0,
      isTracking = False, flushTimeoutId = False, lastFlushTime = 0, lastInputTime = 0,
      tracker_totalTypedChars = 0, tracker_totalPastedChars = 0,
      aiInsertInProgress = False, aiInsertIgnoreUntil = 0, lastAiInsertLength = 0,
      sent = []\<rparr>"

definition BATCH_SIZE :: nat where "BATCH_SIZE = 100"
definition FLUSH_INTERVAL_MS :: rat where "FLUSH_INTERVAL_MS = 500"
definition MIN_FLUSH_SIZE :: nat where "MIN_FLUSH_SIZE = 10"

text \<open>
  \<open>flush(force)\<close>; \<open>sendOk\<close> says whether the awaited \<open>sendMessage\<close> resolved, and \<open>now\<close>
  is the clock when it did.
\<close>

definition flush :: "Tracker \<Rightarrow> bool \<Rightarrow> bool \<Rightarrow> rat \<Rightarrow> Tracker" where
  "flush tr force sendOk now =
     (if \<not> truthy (tracker_sessionId tr) \<or> length (events tr) = 0 then tr
      else if \<not> force \<and> length (events tr) < MIN_FLUSH_SIZE then tr
      else
        let eventsToSend = take BATCH_SIZE (events tr);
            tr1 = tr\<lparr>events := drop BATCH_SIZE (events tr),
                     sent := sent tr @ [KEYSTROKE_BATCH (orElse (tracker_sessionId tr) [])
                                          eventsToSend (batchSequence tr)],
                     batchSequence := batchSequence tr + 1\<rparr>
        in if sendOk then tr1\<lparr>lastFlushTime := now\<rparr>
           else tr1\<lparr>events := eventsToSend @ events tr1\<rparr>)"

definition scheduleFlush :: "Tracker \<Rightarrow> bool \<Rightarrow> rat \<Rightarrow> Tracker" where
  "scheduleFlush tr sendOk now =
     (if length (events tr) \<ge> BATCH_SIZE then flush tr False sendOk now
      else if \<not> flushTimeoutId tr then tr\<lparr>flushTimeoutId := True\<rparr>
      else tr)"

text \<open>The callback of the timer that \<open>scheduleFlush\<close> sets.\<close>

definition flushTimeout :: "Tracker \<Rightarrow> bool \<Rightarrow> rat \<Rightarrow> Tracker" where
  "flushTimeout tr sendOk now = (flush tr False sendOk now)\<lparr>flushTimeoutId := False\<rparr>"

definition stopTrackingState :: "Tracker \<Rightarrow> Tracker" where
  "stopTrackingState tr = tr\<lparr>isTracking := False, tracker_sessionId := None, events := []\<rparr>"

definition reset :: "Tracker \<Rightarrow> Tracker" where
  "reset tr =
     tr\<lparr>events := [], tracker_pasteEvents := [], tracker_sessionId := None,
        batchSequence := 0, isTracking := False, tracker_totalTypedChars := 0,
        tracker_totalPastedChars := 0, flushTimeoutId := False\<rparr>"

text \<open>
  \<open>start()\<close>; \<open>hostname\<close> is \<open>window.location.hostname\<close> and \<open>response\<close> the background's
  answer to \<open>START_SESSION\<close> (\<open>Some\<close> the session's id on success).
\<close>

definition start :: "Tracker \<Rightarrow> string \<Rightarrow> string option \<Rightarrow> bool \<Rightarrow> rat \<Rightarrow> Tracker" where
  "start tr hostname response sendOk now =
     (if isTracking tr then tr
      else
        let tr1 = tr\<lparr>isTracking := True, sent := sent tr @ [START_SESSION hostname]\<rparr>
        in case response of
             Some sid \<Rightarrow> scheduleFlush (tr1\<lparr>tracker_sessionId := Some sid\<rparr>) sendOk now
           | None \<Rightarrow> stopTrackingState tr1)"

definition stop :: "Tracker \<Rightarrow> bool \<Rightarrow> rat \<Rightarrow> Tracker" where
  "stop tr sendOk now =
     (if \<not> isTracking tr \<or> \<not> truthy (tracker_sessionId tr) then tr
      else
        let tr1 = flush tr False sendOk now
        in reset (tr1\<lparr>sent := sent tr1 @ [END_SESSION (orElse (tracker_sessionId tr1) [])]\<rparr>))"

text \<open>The fields of a DOM \<open>KeyboardEvent\<close> that the handlers read.\<close>

record KeyboardEvent =
  keyCode :: nat
  key :: string

definition handleKeyDown :: "Tracker \<Rightarrow> KeyboardEvent \<Rightarrow> bool \<Rightarrow> rat \<Rightarrow> Tracker" where
  "handleKeyDown tr event sendOk now =
     (if \<not> isTracking tr then tr
      else
        let keystrokeEvent =
              \<lparr>event_type = Keydown, key_code = keyCode event,
               key_char = (if length (key event) = 1 then Some (key event) else None),
               client_timestamp = now, input_method = None\<rparr>;
            tr1 = (if length (key event) = 1
                   then tr\<lparr>tracker_totalTypedChars := tracker_totalTypedChars tr + 1\<rparr>
                   else tr)
        in scheduleFlush (tr1\<lparr>events := events tr1 @ [keystrokeEvent]\<rparr>) sendOk now)"

definition handleKeyUp :: "Tracker \<Rightarrow> KeyboardEvent \<Rightarrow> bool \<Rightarrow> rat \<Rightarrow> Tracker" where
  "handleKeyUp tr event sendOk now =
     (if \<not> isTracking tr then tr
      else
        let keystrokeEvent =
              \<lparr>event_type = Keyup, key_code = keyCode event,
               key_char = (if length (key event) = 1 then Some (key event) else None),
               client_timestamp = now, input_method = None\<rparr>
        in scheduleFlush (tr\<lparr>events := events tr @ [keystrokeEvent]\<rparr>) sendOk now)"

text \<open>\<open>handlePaste\<close>; \<open>clipboard\<close> is \<open>event.clipboardData?.getData("text")\<close>.\<close>

definition handlePaste :: "Tracker \<Rightarrow> string option \<Rightarrow> bool \<Rightarrow> rat \<Rightarrow> Tracker" where
  "handlePaste tr clipboard sendOk now =
     (if \<not> isTracking tr \<or> \<not> truthy (tracker_sessionId tr) then tr
      else if aiInsertInProgress tr \<or> now < aiInsertIgnoreUntil tr then tr
      else
        let pastedLength = length (orElse clipboard [])
        in if pastedLength > 0 then
             let pasteEvent = \<lparr>pasted_length = pastedLength, paste_timestamp = now\<rparr>;
                 tr1 = tr\<lparr>tracker_totalPastedChars := tracker_totalPastedChars tr + pastedLength,
                          events := events tr @
                            [\<lparr>event_type = Paste, key_code = pastedLength, key_char = None,
                              client_timestamp = now, input_method = Some Method_paste\<rparr>],
                          tracker_pasteEvents := tracker_pasteEvents tr @ [pasteEvent],
                          sent := sent tr @
                            [PASTE_EVENT (orElse (tracker_sessionId tr) []) pasteEvent]\<rparr>
             in scheduleFlush tr1 sendOk now
           else tr)"

text \<open>
  The loop of \<open>synthesizeAiBurst\<close> over the characters from index \<open>i\<close> on. \<open>random k\<close> is
  the value of the \<open>k\<close>-th call of \<open>Math.random()\<close> made by the loop; each character
  draws a dwell and then a flight time. The result is the events pushed and the final
  \<open>timestamp\<close>.
\<close>

fun aiBurstLoop :: "(nat \<Rightarrow> rat) \<Rightarrow> nat \<Rightarrow> rat \<Rightarrow> string \<Rightarrow> KeystrokeEvent list \<times> rat" where
  "aiBurstLoop random i timestamp [] = ([], timestamp)"
| "aiBurstLoop random i timestamp (char # chars) =
     (let keyCode = of_char char;
          dwellTime = 3 + random (2 * i) * 2;
          flightTime = 2 + random (2 * i + 1) * 2;
          rest = aiBurstLoop random (i + 1) (timestamp + (dwellTime + flightTime)) chars
      in (\<lparr>event_type = Keydown, key_code = keyCode, key_char = Some [char],
           client_timestamp = timestamp, input_method = Some Method_ai_assistant\<rparr>
          # \<lparr>event_type = Keyup, key_code = keyCode, key_char = Some [char],
              client_timestamp = timestamp + dwellTime,
              input_method = Some Method_ai_assistant\<rparr>
          # fst rest,
          snd rest))"

text \<open>
  All events that \<open>synthesizeAiBurst\<close> pushes: the loop's keystrokes and then the volume
  marker, whose \<open>key_code\<close> is the length of the text.
\<close>

definition aiBurstEvents :: "(nat \<Rightarrow> rat) \<Rightarrow> rat \<Rightarrow> string \<Rightarrow> KeystrokeEvent list" where
  "aiBurstEvents random now text =
     (let burst = aiBurstLoop random 0 now text
      in fst burst @
         [\<lparr>event_type = Ai_assistant, key_code = length text, key_char = None,
           client_timestamp = snd burst, input_method = Some Method_ai_assistant\<rparr>])"

definition synthesizeAiBurst ::
  "Tracker \<Rightarrow> string \<Rightarrow> (nat \<Rightarrow> rat) \<Rightarrow> bool \<Rightarrow> rat \<Rightarrow> Tracker" where
  "synthesizeAiBurst tr text random sendOk now =
     (let tr1 = tr\<lparr>aiInsertInProgress := True,
                   lastAiInsertLength := length text,
                   aiInsertIgnoreUntil := now + 500,
                   events := events tr @ aiBurstEvents random now text,
                   tracker_totalPastedChars := tracker_totalPastedChars tr + length text\<rparr>
      in scheduleFlush tr1 sendOk now)"

text \<open>The callback of the timer that \<open>synthesizeAiBurst\<close> sets (100 ms).\<close>

definition aiInsertTimeout :: "Tracker \<Rightarrow> Tracker" where
  "aiInsertTimeout tr = tr\<lparr>aiInsertInProgress := False\<rparr>"

text \<open>
  \<open>handleWindowMessage\<close>; \<open>fromWindow\<close> is \<open>event.source === window\<close>, \<open>dataType\<close> and
  \<open>dataText\<close> are \<open>event.data?.type\<close> and \<open>event.data?.text\<close>.
\<close>

definition handleWindowMessage ::
  "Tracker \<Rightarrow> bool \<Rightarrow> string option \<Rightarrow> string option \<Rightarrow> (nat \<Rightarrow> rat) \<Rightarrow> bool \<Rightarrow> rat
   \<Rightarrow> Tracker" where
  "handleWindowMessage tr fromWindow dataType dataText random sendOk now =
     (if \<not> fromWindow then tr
      else if dataType = Some ''humanSign:aiInsert'' \<and> truthy dataText
      then synthesizeAiBurst tr (orElse dataText []) random sendOk now
      else tr)"

text \<open>\<open>handleInput\<close>; \<open>inputData\<close> is \<open>inputEvent.data\<close>.\<close>

definition handleInput :: "Tracker \<Rightarrow> string option \<Rightarrow> bool \<Rightarrow> rat \<Rightarrow> Tracker" where
  "handleInput tr inputData sendOk now =
     (if \<not> isTracking tr then tr
      else
        let tr1 = tr\<lparr>lastInputTime := now\<rparr>
        in if aiInsertInProgress tr1 \<or> now < aiInsertIgnoreUntil tr1 then tr1
           else case inputData of
             Some [ch] \<Rightarrow>
               scheduleFlush
                 (tr1\<lparr>events := events tr1 @
                        [\<lparr>event_type = Keydown, key_code = of_char ch, key_char = Some [ch],
                          client_timestamp = now, input_method = None\<rparr>,
                         \<lparr>event_type = Keyup, key_code = of_char ch, key_char = Some [ch],
                          client_timestamp = now + 50, input_method = None\<rparr>],
                      tracker_totalTypedChars := tracker_totalTypedChars tr1 + 1\<rparr>)
                 sendOk now
           | _ \<Rightarrow> tr1)"

text \<open>
  The background's handling of a message of the tracker, for the messages that change
  the ledger. \<open>remote\<close>, \<open>uuid\<close> and \<open>now\<close> are the inputs of \<open>START_SESSION\<close>.
\<close>

definition handleMessage ::
  "SessionState \<Rightarrow> Message \<Rightarrow> unit + string \<Rightarrow> string \<Rightarrow> rat \<Rightarrow> SessionState" where
  "handleMessage s message remote uuid now =
     (case message of
        START_SESSION host \<Rightarrow> handle_START_SESSION s host remote uuid now
      | END_SESSION sid \<Rightarrow> handle_END_SESSION s
      | KEYSTROKE_BATCH sid evs batch_sequence \<Rightarrow> handle_KEYSTROKE_BATCH s evs
      | PASTE_EVENT sid ev \<Rightarrow> handle_PASTE_EVENT s ev)"

section \<open>Quantities the properties are stated with\<close>

text \<open>The total of the ledger and the three ratios of a session.\<close>

definition totalChars :: "SessionState \<Rightarrow> nat" where
  "totalChars s = totalTypedChars s + (totalPastedChars s + totalAiChars s)"

definition pctPaste :: "SessionState \<Rightarrow> rat" where
  "pctPaste s = ratio (totalPastedChars s) (totalChars s)"

definition pctAi :: "SessionState \<Rightarrow> rat" where
  "pctAi s = ratio (totalAiChars s) (totalChars s)"

definition pctHuman :: "SessionState \<Rightarrow> rat" where
  "pctHuman s = ratio (totalTypedChars s) (totalChars s)"

text \<open>The report that \<open>DOWNLOAD_COMBINED\<close> writes.\<close>

definition exportedReport ::
  "('pk, 'sk) WebCrypto \<Rightarrow> nat \<Rightarrow> SessionState \<Rightarrow> string option \<Rightarrow> rat \<Rightarrow> string \<Rightarrow> string
   \<Rightarrow> HumanSignData" where
  "exportedReport env calls s payload_text now isoDate uuid =
     snd (snd (handle_DOWNLOAD_COMBINED env calls s payload_text now isoDate uuid))"

text \<open>
  What the decoder reads from an exported report: \<open>JSON.parse\<close> of the file that holds
  \<open>JSON.stringify\<close> of the report, restricted to the fields \<open>verifySignature\<close> touches,
  all of which an exported report has.
\<close>

definition parseExported :: "HumanSignData \<Rightarrow> ParsedReport" where
  "parseExported r =
     \<lparr>parsed_signature =
        Some \<lparr>parsed_public_key = Some (public_key (signature r)),
              parsed_signature_value = Some (signature_value (signature r))\<rparr>,
      parsed_content_hash = Some (content_hash r),
      parsed_metrics = Some (metrics r),
      parsed_session = Some \<lparr>parsed_id = Some (session_id (session r))\<rparr>\<rparr>"

text \<open>
  The histogram as the specification words it: ten buckets of equal \<open>width\<close> from zero,
  a sample outside the range counted in the nearest edge bucket. \<open>bucket_counts\<close> is the
  number of samples per bucket.
\<close>

definition edge_clamped_bucket :: "rat \<Rightarrow> rat \<Rightarrow> nat" where
  "edge_clamped_bucket width v =
     (if v < 0 then 0 else if 10 * width \<le> v then 9 else nat \<lfloor>v / width\<rfloor>)"

definition bucket_counts :: "rat \<Rightarrow> rat list \<Rightarrow> nat list" where
  "bucket_counts width samples =
     map (\<lambda>i. length (filter (\<lambda>v. edge_clamped_bucket width v = i) samples)) [0..<10]"

text \<open>
  Two events agree on what \<open>serializeEvents\<close> keeps: the event type, the key code and
  the timestamp rounded by \<open>Math.round\<close>.
\<close>

definition sameTiming :: "KeystrokeEvent \<Rightarrow> KeystrokeEvent \<Rightarrow> bool" where
  "sameTiming x y \<longleftrightarrow>
     event_type x = event_type y \<and> key_code x = key_code y \<and>
     Math_round (client_timestamp x) = Math_round (client_timestamp y)"

section \<open>Inputs of the examples\<close>

text \<open>
  A small stand-in for the platform, used only to evaluate the examples: key pairs are
  numbered, a signature is the number of its key followed by the bytes of the message,
  and base64 is replaced by hexadecimal. The theorems below hold for every platform.
\<close>

fun hexValue :: "char \<Rightarrow> nat option" where
  "hexValue c =
     (if c \<in> set ''0123456789abcdef''
      then Some (length (takeWhile (\<lambda>d. d \<noteq> c) ''0123456789abcdef''))
      else None)"

fun hexToBytes :: "string \<Rightarrow> bytes option" where
  "hexToBytes [] = Some []"
| "hexToBytes [c] = None"
| "hexToBytes (a # b # rest) =
     (case (hexValue a, hexValue b, hexToBytes rest) of
        (Some x, Some y, Some bs) \<Rightarrow> Some (of_nat (16 * x + y) # bs)
      | _ \<Rightarrow> None)"

definition charByte :: "char \<Rightarrow> 8 word" where
  "charByte c = of_nat (of_char c)"

definition testCrypto :: "(nat, nat) WebCrypto" where
  "testCrypto =
     \<lparr>digest_SHA256 = (\<lambda>text. [of_nat (length text), of_nat (sum_list (map of_char text))]),
      generateKey = (\<lambda>n. Some (n + 1, n + 101)),
      exportKey_spki = (\<lambda>pk. Some [of_nat pk]),
      exportKey_pkcs8 = (\<lambda>sk. Some [of_nat sk]),
      importKey_spki = (\<lambda>bs. case bs of [b] \<Rightarrow> Some (unat b) | _ \<Rightarrow> None),
      importKey_pkcs8 = (\<lambda>bs. case bs of [b] \<Rightarrow> Some (unat b) | _ \<Rightarrow> None),
      sign_ECDSA = (\<lambda>sk m. Some (of_nat (sk - 100) # map charByte m)),
      verify_ECDSA = (\<lambda>pk sg m. Some (sg = of_nat pk # map charByte m)),
      btoa = bufferToHex,
      atob = hexToBytes,
      JSON_stringify = (\<lambda>h m i. orElse h [] @ '','' @ orElse i [])\<rparr>"

text \<open>Ledgers whose pasted ratio is exactly \<open>0.10\<close> and \<open>0.1000001\<close>.\<close>

definition session_ratio_exactly_tenth :: SessionState where
  "session_ratio_exactly_tenth =
     state\<lparr>sessionId := Some ''session-1'', isRecording := True,
           totalTypedChars := 90, totalPastedChars := 10\<rparr>"

definition session_ratio_just_above_tenth :: SessionState where
  "session_ratio_just_above_tenth =
     state\<lparr>sessionId := Some ''session-1'', isRecording := True,
           totalTypedChars := 8999999, totalPastedChars := 1000001\<rparr>"

text \<open>
  The same two key presses, once as a lower-case and once as an upper-case letter, with
  timestamps that round to the same milliseconds.
\<close>

definition typed_lower_a :: "KeystrokeEvent list" where
  "typed_lower_a =
     [\<lparr>event_type = Keydown, key_code = 65, key_char = Some ''a'',
       client_timestamp = 10004 / 10, input_method = None\<rparr>,
      \<lparr>event_type = Keyup, key_code = 65, key_char = Some ''a'',
       client_timestamp = 10805 / 10, input_method = None\<rparr>]"

definition typed_upper_a :: "KeystrokeEvent list" where
  "typed_upper_a =
     [\<lparr>event_type = Keydown, key_code = 65, key_char = Some ''A'',
       client_timestamp = 9996 / 10, input_method = None\<rparr>,
      \<lparr>event_type = Keyup, key_code = 65, key_char = None,
       client_timestamp = 1081, input_method = Some Method_ai_assistant\<rparr>]"

text \<open>
  Three uploaded reports: one signed by the stand-in platform, one whose signing failed
  (the exporter leaves both fields empty) and one with a public key that is no base64.
\<close>

definition parsed_signed_report :: ParsedReport where
  "parsed_signed_report =
     \<lparr>parsed_signature =
        Some \<lparr>parsed_public_key = Some ''01'', parsed_signature_value = Some ''0161622c7331''\<rparr>,
      parsed_content_hash = Some ''ab'', parsed_metrics = None,
      parsed_session = Some \<lparr>parsed_id = Some ''s1''\<rparr>\<rparr>"

definition parsed_unsigned_report :: ParsedReport where
  "parsed_unsigned_report =
     \<lparr>parsed_signature =
        Some \<lparr>parsed_public_key = Some [], parsed_signature_value = Some []\<rparr>,
      parsed_content_hash = Some ''ab'', parsed_metrics = None,
      parsed_session = Some \<lparr>parsed_id = Some ''s1''\<rparr>\<rparr>"

definition parsed_malformed_report :: ParsedReport where
  "parsed_malformed_report =
     \<lparr>parsed_signature =
        Some \<lparr>parsed_public_key = Some ''zz'', parsed_signature_value = Some ''0161622c7331''\<rparr>,
      parsed_content_hash = Some ''ab'', parsed_metrics = None,
      parsed_session = Some \<lparr>parsed_id = Some ''s1''\<rparr>\<rparr>"

text \<open>
  A session of fifteen typed characters: a local session is started and one batch of
  fifteen key presses (80 ms down, 120 ms apart) arrives.
\<close>

definition fifteen_keystrokes :: "KeystrokeEvent list" where
  "fifteen_keystrokes =
     concat (map (\<lambda>i.
       [\<lparr>event_type = Keydown, key_code = 65, key_char = Some ''a'',
         client_timestamp = 2000 + 200 * of_nat i, input_method = None\<rparr>,
        \<lparr>event_type = Keyup, key_code = 65, key_char = Some ''a'',
         client_timestamp = 2080 + 200 * of_nat i, input_method = None\<rparr>]) [0..<15])"

definition session_of_fifteen_typed :: SessionState where
  "session_of_fifteen_typed =
     handle_KEYSTROKE_BATCH
       (handle_START_SESSION state ''example.org'' (Inl ()) ''local-uuid'' 1000)
       fifteen_keystrokes"

text \<open>
  A tracker that has started session 1, the same tracker after the editor announced the
  accepted suggestion \<open>hello\<close>, and the background worker after the tracker's buffer
  reached it as one batch.
\<close>

definition tracking_tracker :: Tracker where
  "tracking_tracker = start keystrokeTracker ''example.org'' (Some ''session-1'') True 0"

definition tracker_after_ai_insert :: Tracker where
  "tracker_after_ai_insert =
     handleWindowMessage tracking_tracker True (Some ''humanSign:aiInsert'') (Some ''hello'')
       (\<lambda>k. 1 / 2) True 1000"

definition background_after_ai_insert :: SessionState where
  "background_after_ai_insert =
     handle_KEYSTROKE_BATCH
       (handle_START_SESSION state ''example.org'' (Inr ''session-1'') [] 0)
       (events tracker_after_ai_insert)"

text \<open>
  Session 1 is ended and session 2 started; five key presses are typed in session 2 and
  reach the background worker.
\<close>

definition background_second_session :: SessionState where
  "background_second_session =
     handle_KEYSTROKE_BATCH
       (handle_START_SESSION (handle_END_SESSION background_after_ai_insert)
          ''example.org'' (Inr ''session-2'') [] 3000)
       (take 10 fifteen_keystrokes)"

text \<open>
  One press of the key \<open>a\<close>, delivered to \<open>handleKeyDown\<close> by the listener on \<open>window\<close>
  and again by the listener on \<open>document\<close>, at the same clock value.
\<close>

definition key_a :: KeyboardEvent where
  "key_a = \<lparr>keyCode = 65, key = ''a''\<rparr>"

definition tracker_after_same_keydown_twice :: Tracker where
  "tracker_after_same_keydown_twice =
     handleKeyDown (handleKeyDown tracking_tracker key_a True 1000) key_a True 1000"

text \<open>Two exports in a row, the second from the state and the call count the first left.\<close>

definition first_export :: "SessionState \<times> nat \<times> HumanSignData" where
  "first_export =
     handle_DOWNLOAD_COMBINED testCrypto 0 session_of_fifteen_typed (Some ''hello'') 60000
       ''2026-01-01T00:00:00.000Z'' ''uuid''"

definition second_export :: "SessionState \<times> nat \<times> HumanSignData" where
  "second_export =
     handle_DOWNLOAD_COMBINED testCrypto (fst (snd first_export)) (fst first_export)
       (Some ''hello'') 61000 ''2026-01-01T00:00:01.000Z'' ''uuid''"

text \<open>The first of these exports before and after signing.\<close>

definition unsigned_example :: HumanSignData where
  "unsigned_example =
     humanSignData testCrypto session_of_fifteen_typed (Some ''hello'') 60000
       ''2026-01-01T00:00:00.000Z'' ''uuid''"

definition exported_example :: HumanSignData where
  "exported_example =
     exportedReport testCrypto 0 session_of_fifteen_typed (Some ''hello'') 60000
       ''2026-01-01T00:00:00.000Z'' ''uuid''"

section \<open>Lemmas about the report and the verdict\<close>

lemma signReport_keeps:
  "classification (fst (signReport env calls d)) = classification d"
  "timing_data (fst (signReport env calls d)) = timing_data d"
  by (simp_all add: signReport_def Let_def split: option.split prod.split)

lemma exported_classification:
  "classification (exportedReport env calls s txt now isoDate uuid) =
   downloadClassification (totalTypedChars s) (totalPastedChars s) (totalAiChars s)
     (lastVerification s)"
  by (simp add: exportedReport_def handle_DOWNLOAD_COMBINED_def humanSignData_def Let_def
        signReport_keeps)

lemma exported_timing_data:
  "timing_data (exportedReport env calls s txt now isoDate uuid) =
     \<lparr>dwell_histogram = createHistogram (dwellTimes (calculateStats s now)) 10 0 200,
      flight_histogram = createHistogram (flightTimes (calculateStats s now)) 10 0 300\<rparr>"
  by (simp add: exportedReport_def handle_DOWNLOAD_COMBINED_def humanSignData_def Let_def
        signReport_keeps)

lemma stats_verdict:
  "currentVerdict (calculateStats s now) =
     fst (statsVerdict (totalTypedChars s) (totalPastedChars s) (totalAiChars s)
            (length (filter (\<lambda>e. event_type e = Keydown) (keystrokes s))) (lastVerification s))"
  "currentConfidence (calculateStats s now) =
     snd (statsVerdict (totalTypedChars s) (totalPastedChars s) (totalAiChars s)
            (length (filter (\<lambda>e. event_type e = Keydown) (keystrokes s))) (lastVerification s))"
  by (simp_all add: calculateStats_def Let_def)

text \<open>At twenty characters or more \<open>calculateStats\<close> runs the cascade.\<close>

lemma statsVerdict_enough:
  assumes "20 \<le> typed + (pasted + ai)"
  shows "statsVerdict typed pasted ai n lv =
     (if ratio pasted (typed + (pasted + ai)) > 1 / 10 then
        (if ratio pasted (typed + (pasted + ai)) > 1 / 2 then ''paste'' else ''paste_detected'',
         min (1 / 2 + ratio pasted (typed + (pasted + ai)) * (1 / 2)) (99 / 100))
      else if ratio ai (typed + (pasted + ai)) > 1 / 10 then
        (''ai_assisted'', min (1 / 2 + ratio ai (typed + (pasted + ai)) * (1 / 2)) (99 / 100))
      else if ratio typed (typed + (pasted + ai)) \<ge> 9 / 10 then
        (''human_organic'', min (7 / 10 + ratio typed (typed + (pasted + ai)) * (3 / 10)) (99 / 100))
      else (lastLabelOr lv ''unknown'', lastConfidenceOr lv (1 / 2)))"
proof -
  from assms have "typed + (pasted + ai) \<noteq> 0" and "\<not> typed + (pasted + ai) < 20"
    by linarith+
  then show ?thesis
    unfolding statsVerdict_def Let_def by (simp only: if_False simp_thms)
qed

lemma statsVerdict_below:
  assumes "typed + (pasted + ai) < 20"
  shows "statsVerdict typed pasted ai n lv =
           (''waiting'', min (of_nat (typed + (pasted + ai)) / 20) (9 / 10))"
  using assms unfolding statsVerdict_def Let_def by auto

text \<open>The export runs the cascade only above twenty characters.\<close>

lemma downloadClassification_enough:
  assumes "20 < typed + (pasted + ai)"
  shows "report_verdict (downloadClassification typed pasted ai lv) =
     (if ratio pasted (typed + (pasted + ai)) > 1 / 10 then
        (if ratio pasted (typed + (pasted + ai)) > 1 / 2 then ''paste'' else ''paste_detected'')
      else if ratio ai (typed + (pasted + ai)) > 1 / 10 then ''ai_assisted''
      else if ratio typed (typed + (pasted + ai)) \<ge> 9 / 10 then ''human_organic''
      else lastLabelOr lv ''unknown'')"
    and "report_confidence (downloadClassification typed pasted ai lv) =
     (if ratio pasted (typed + (pasted + ai)) > 1 / 10 then
        min (1 / 2 + ratio pasted (typed + (pasted + ai)) * (1 / 2)) (99 / 100)
      else if ratio ai (typed + (pasted + ai)) > 1 / 10 then
        min (1 / 2 + ratio ai (typed + (pasted + ai)) * (1 / 2)) (99 / 100)
      else if ratio typed (typed + (pasted + ai)) \<ge> 9 / 10 then
        min (7 / 10 + ratio typed (typed + (pasted + ai)) * (3 / 10)) (99 / 100)
      else lastConfidenceOr lv (1 / 2))"
  using assms unfolding downloadClassification_def Let_def by simp_all

lemma downloadClassification_below:
  assumes "typed + (pasted + ai) \<le> 20"
  shows "downloadClassification typed pasted ai lv =
           \<lparr>report_verdict = ''unverified'', report_class_label = ''unverified'',
            report_confidence = 0, report_is_human = False,
            paste_ratio = 0, ai_ratio = 0, human_ratio = 1\<rparr>"
proof -
  from assms have "\<not> 20 < typed + (pasted + ai)" by simp
  then show ?thesis unfolding downloadClassification_def Let_def by (simp only: if_False)
qed

section \<open>The volume cascade\<close>

text \<open>
  Claim C6. Once the cascade runs (\<open>calculateStats\<close>: twenty characters or more; the
  export of \<open>DOWNLOAD_COMBINED\<close>: more than twenty), its first rule fires exactly when
  the pasted ratio is strictly greater than \<open>0.10\<close>. When it fires the label is \<open>paste\<close>
  for a ratio above \<open>0.5\<close> and \<open>paste_detected\<close> otherwise, and the confidence is
  \<open>min(0.99, 0.5 + ratio * 0.5)\<close>. When it does not fire, the label is the one the
  later rules give: the assistant rule, then the human rule, then the last verification.
\<close>

theorem paste_rule_fires_iff_ratio_above_tenth:
  "(20 \<le> totalChars s \<longrightarrow>
      (1 / 10 < pctPaste s \<longrightarrow>
         currentVerdict (calculateStats s now) =
           (if 1 / 2 < pctPaste s then ''paste'' else ''paste_detected'') \<and>
         currentConfidence (calculateStats s now) = min (99 / 100) (1 / 2 + pctPaste s * (1 / 2))) \<and>
      (pctPaste s \<le> 1 / 10 \<longrightarrow>
         currentVerdict (calculateStats s now) =
           (if 1 / 10 < pctAi s then ''ai_assisted''
            else if 9 / 10 \<le> pctHuman s then ''human_organic''
            else lastLabelOr (lastVerification s) ''unknown''))) \<and>
   (20 < totalChars s \<longrightarrow>
      (1 / 10 < pctPaste s \<longrightarrow>
         report_verdict (classification (exportedReport env calls s txt now isoDate uuid)) =
           (if 1 / 2 < pctPaste s then ''paste'' else ''paste_detected'') \<and>
         report_confidence (classification (exportedReport env calls s txt now isoDate uuid)) =
           min (99 / 100) (1 / 2 + pctPaste s * (1 / 2))) \<and>
      (pctPaste s \<le> 1 / 10 \<longrightarrow>
         report_verdict (classification (exportedReport env calls s txt now isoDate uuid)) =
           (if 1 / 10 < pctAi s then ''ai_assisted''
            else if 9 / 10 \<le> pctHuman s then ''human_organic''
            else lastLabelOr (lastVerification s) ''unknown'')))"
proof (intro conjI impI)
  assume "20 \<le> totalChars s" "1 / 10 < pctPaste s"
  then show "currentVerdict (calculateStats s now) =
           (if 1 / 2 < pctPaste s then ''paste'' else ''paste_detected'')"
    by (simp add: stats_verdict statsVerdict_enough totalChars_def pctPaste_def)
next
  assume "20 \<le> totalChars s" "1 / 10 < pctPaste s"
  then show "currentConfidence (calculateStats s now) =
           min (99 / 100) (1 / 2 + pctPaste s * (1 / 2))"
    by (simp add: stats_verdict statsVerdict_enough totalChars_def pctPaste_def min.commute)
next
  assume "20 \<le> totalChars s" "pctPaste s \<le> 1 / 10"
  then show "currentVerdict (calculateStats s now) =
           (if 1 / 10 < pctAi s then ''ai_assisted''
            else if 9 / 10 \<le> pctHuman s then ''human_organic''
            else lastLabelOr (lastVerification s) ''unknown'')"
    by (simp add: stats_verdict statsVerdict_enough totalChars_def pctPaste_def pctAi_def
          pctHuman_def)
next
  assume "20 < totalChars s" "1 / 10 < pctPaste s"
  then show "report_verdict (classification (exportedReport env calls s txt now isoDate uuid)) =
           (if 1 / 2 < pctPaste s then ''paste'' else ''paste_detected'')"
    by (simp add: exported_classification downloadClassification_enough totalChars_def
          pctPaste_def)
next
  assume "20 < totalChars s" "1 / 10 < pctPaste s"
  then show "report_confidence (classification (exportedReport env calls s txt now isoDate uuid)) =
           min (99 / 100) (1 / 2 + pctPaste s * (1 / 2))"
    by (simp add: exported_classification downloadClassification_enough totalChars_def
          pctPaste_def min.commute)
next
  assume "20 < totalChars s" "pctPaste s \<le> 1 / 10"
  then show "report_verdict (classification (exportedReport env calls s txt now isoDate uuid)) =
           (if 1 / 10 < pctAi s then ''ai_assisted''
            else if 9 / 10 \<le> pctHuman s then ''human_organic''
            else lastLabelOr (lastVerification s) ''unknown'')"
    by (simp add: exported_classification downloadClassification_enough totalChars_def
          pctPaste_def pctAi_def pctHuman_def)
qed

lemma ledger_exactly_tenth:
  "totalChars session_ratio_exactly_tenth = 100"
  "pctPaste session_ratio_exactly_tenth = 1 / 10"
  "pctAi session_ratio_exactly_tenth = 0"
  "pctHuman session_ratio_exactly_tenth = 9 / 10"
  by (simp_all add: session_ratio_exactly_tenth_def state_def totalChars_def pctPaste_def
        pctAi_def pctHuman_def ratio_def)

lemma ledger_just_above_tenth:
  "totalChars session_ratio_just_above_tenth = 10000000"
  "pctPaste session_ratio_just_above_tenth = 1000001 / 10000000"
  by (simp_all add: session_ratio_just_above_tenth_def state_def totalChars_def pctPaste_def
        ratio_def)

text \<open>
  The boundary of claim C6: 10 pasted of 100 characters (exactly \<open>0.10\<close>) is not a paste
  verdict on either path, 1000001 of 10000000 (\<open>0.1000001\<close>) is \<open>paste_detected\<close> with
  confidence \<open>0.55000005\<close>.
\<close>

theorem paste_rule_boundary_witness:
  "20 < totalChars session_ratio_exactly_tenth \<and>
   pctPaste session_ratio_exactly_tenth = 1 / 10 \<and>
   currentVerdict (calculateStats session_ratio_exactly_tenth 0) = ''human_organic'' \<and>
   report_verdict (classification
     (exportedReport testCrypto 0 session_ratio_exactly_tenth None 0 [] [])) = ''human_organic'' \<and>
   20 < totalChars session_ratio_just_above_tenth \<and>
   pctPaste session_ratio_just_above_tenth = 1000001 / 10000000 \<and>
   currentVerdict (calculateStats session_ratio_just_above_tenth 0) = ''paste_detected'' \<and>
   currentConfidence (calculateStats session_ratio_just_above_tenth 0) = 11000001 / 20000000 \<and>
   report_verdict (classification
     (exportedReport testCrypto 0 session_ratio_just_above_tenth None 0 [] [])) = ''paste_detected'' \<and>
   report_confidence (classification
     (exportedReport testCrypto 0 session_ratio_just_above_tenth None 0 [] [])) = 11000001 / 20000000"
  using paste_rule_fires_iff_ratio_above_tenth
          [of session_ratio_exactly_tenth 0 testCrypto 0 None "[]" "[]"]
        paste_rule_fires_iff_ratio_above_tenth
          [of session_ratio_just_above_tenth 0 testCrypto 0 None "[]" "[]"]
  by (simp add: ledger_exactly_tenth ledger_just_above_tenth)

section \<open>Sessions below the character gate\<close>

lemma fifteen_stats:
  "totalChars session_of_fifteen_typed = 15"
  "pasteRatio (calculateStats session_of_fifteen_typed 60000) = 0"
  "aiRatio (calculateStats session_of_fifteen_typed 60000) = 0"
  "stats_totalPastedChars (calculateStats session_of_fifteen_typed 60000) = 0"
  "stats_totalAiChars (calculateStats session_of_fifteen_typed 60000) = 0"
  "keystrokeCount (calculateStats session_of_fifteen_typed 60000) = 15"
  by code_simp+

text \<open>
  Claim C5 says that every classification path reports the neutral waiting state for
  a session below the gate. The local verification of \<open>VERIFY_SESSION\<close> does not: for
  the session of fifteen typed characters, with the server unreachable, it answers
  \<open>unknown\<close> with \<open>is_human = false\<close> and confidence \<open>0.3\<close>.
\<close>

theorem local_verification_below_gate_is_unknown:
  "totalChars session_of_fifteen_typed = 15 \<and>
   snd (handle_VERIFY_SESSION session_of_fifteen_typed None None (Inl ()) 60000) =
     Local_response
       \<lparr>local_is_human = False, local_confidence_score = 3 / 10,
        local_class_label = ''unknown'', local_paste_detected = False,
        local_paste_ratio = 0, local_paste_count = 0\<rparr>"
  by code_simp

text \<open>
  Claim C5 as amended. Below twenty characters \<open>calculateStats\<close> reports \<open>waiting\<close>, with
  the progress \<open>min(total / 20, 0.9)\<close> as confidence. At twenty characters or fewer the
  export reports \<open>unverified\<close> with confidence 0. The local verification of
  \<open>VERIFY_SESSION\<close> has no character gate: without a paste or assistant signal and with
  at most twenty keydown events it reports \<open>unknown\<close>, not human, confidence \<open>0.3\<close>.
\<close>

theorem below_gate_verdicts_per_path:
  "(totalChars s < 20 \<longrightarrow>
      currentVerdict (calculateStats s now) = ''waiting'' \<and>
      currentConfidence (calculateStats s now) = min (of_nat (totalChars s) / 20) (9 / 10)) \<and>
   (totalChars s \<le> 20 \<longrightarrow>
      classification (exportedReport env calls s txt now isoDate uuid) =
        \<lparr>report_verdict = ''unverified'', report_class_label = ''unverified'',
         report_confidence = 0, report_is_human = False,
         paste_ratio = 0, ai_ratio = 0, human_ratio = 1\<rparr>) \<and>
   (pasteRatio stats \<le> 1 / 10 \<and> stats_totalPastedChars stats \<le> 50 \<and>
    aiRatio stats \<le> 1 / 10 \<and> stats_totalAiChars stats \<le> 50 \<and>
    keystrokeCount stats \<le> 20 \<longrightarrow>
      localVerification stats = (''unknown'', False, 3 / 10))"
proof (intro conjI impI)
  assume "totalChars s < 20"
  then show "currentVerdict (calculateStats s now) = ''waiting''"
    by (simp add: stats_verdict statsVerdict_below totalChars_def)
next
  assume "totalChars s < 20"
  then show "currentConfidence (calculateStats s now) = min (of_nat (totalChars s) / 20) (9 / 10)"
    by (simp add: stats_verdict statsVerdict_below totalChars_def)
next
  assume "totalChars s \<le> 20"
  then show "classification (exportedReport env calls s txt now isoDate uuid) =
        \<lparr>report_verdict = ''unverified'', report_class_label = ''unverified'',
         report_confidence = 0, report_is_human = False,
         paste_ratio = 0, ai_ratio = 0, human_ratio = 1\<rparr>"
    by (simp add: exported_classification downloadClassification_below totalChars_def)
next
  assume "pasteRatio stats \<le> 1 / 10 \<and> stats_totalPastedChars stats \<le> 50 \<and>
    aiRatio stats \<le> 1 / 10 \<and> stats_totalAiChars stats \<le> 50 \<and>
    keystrokeCount stats \<le> 20"
  then show "localVerification stats = (''unknown'', False, 3 / 10)"
    by (simp add: localVerification_def Let_def)
qed

text \<open>The amended claim C5 at the session of fifteen typed characters.\<close>

theorem below_gate_verdicts_per_path_witness:
  "totalChars session_of_fifteen_typed = 15 \<and>
   currentVerdict (calculateStats session_of_fifteen_typed 60000) = ''waiting'' \<and>
   currentConfidence (calculateStats session_of_fifteen_typed 60000) = 3 / 4 \<and>
   report_verdict (classification
     (exportedReport testCrypto 0 session_of_fifteen_typed None 60000 [] [])) = ''unverified'' \<and>
   localVerification (calculateStats session_of_fifteen_typed 60000) = (''unknown'', False, 3 / 10)"
  using below_gate_verdicts_per_path
          [of session_of_fifteen_typed 60000 testCrypto 0 None "[]" "[]"
              "calculateStats session_of_fifteen_typed 60000"]
  by (simp add: fifteen_stats)

section \<open>The timing histograms\<close>

lemma increment_Some_nat: "k < length h \<Longrightarrow> increment h (Some (int k)) = h[k := h ! k + 1]"
  by (simp add: increment_def)

text \<open>
  The loop of \<open>createHistogram\<close>, when every sample has an index inside the array: each
  element grows by the number of samples with its index.
\<close>

lemma foldl_increment_counts:
  assumes "\<And>v. v \<in> set vs \<Longrightarrow> f v = Some (int (g v)) \<and> g v < length h"
  shows "foldl (\<lambda>h v. increment h (f v)) h vs =
         map (\<lambda>i. h ! i + length (filter (\<lambda>v. g v = i) vs)) [0..<length h]"
  using assms
proof (induction vs arbitrary: h)
  case Nil
  show ?case by (simp add: map_nth)
next
  case (Cons v vs)
  have fv: "f v = Some (int (g v))" and gv: "g v < length h"
    using Cons.prems[of v] by simp_all
  let ?h = "h[g v := h ! g v + 1]"
  have step: "increment h (f v) = ?h" using fv gv by (simp add: increment_Some_nat)
  have rest: "\<And>w. w \<in> set vs \<Longrightarrow> f w = Some (int (g w)) \<and> g w < length ?h"
    using Cons.prems by simp
  have "foldl (\<lambda>h v. increment h (f v)) ?h vs =
        map (\<lambda>i. ?h ! i + length (filter (\<lambda>v. g v = i) vs)) [0..<length ?h]"
    by (rule Cons.IH[OF rest])
  also have "\<dots> = map (\<lambda>i. h ! i + length (filter (\<lambda>w. g w = i) (v # vs))) [0..<length h]"
    using gv by (auto simp: nth_list_update)
  finally show ?case using step by simp
qed

text \<open>With ten bins from 0 to \<open>10 * w\<close> the index of the code is the clamped bucket.\<close>

lemma binIndex_ten:
  assumes "0 < w"
  shows "binIndex 10 0 (10 * w) v = Some (int (edge_clamped_bucket w v))"
proof -
  have ne: "10 * w \<noteq> 0" using assms by simp
  show ?thesis
  proof (cases "v < 0")
    case True
    then have "v / w < 0" using assms by (simp add: divide_neg_pos)
    then have "\<lfloor>v / w\<rfloor> < 0" by (simp add: floor_less_iff)
    with True ne show ?thesis by (simp add: binIndex_def edge_clamped_bucket_def)
  next
    case nonneg: False
    show ?thesis
    proof (cases "10 * w \<le> v")
      case True
      then have "10 \<le> v / w" using assms by (simp add: pos_le_divide_eq)
      then have "10 \<le> \<lfloor>v / w\<rfloor>" by (simp add: le_floor_iff)
      with True nonneg ne show ?thesis by (simp add: binIndex_def edge_clamped_bucket_def)
    next
      case False
      then have "v / w < 10" using assms by (simp add: pos_divide_less_eq)
      then have "\<lfloor>v / w\<rfloor> < 10" by (simp add: floor_less_iff)
      moreover have "0 \<le> v / w" using nonneg assms by simp
      then have "0 \<le> \<lfloor>v / w\<rfloor>" by (simp add: le_floor_iff)
      ultimately show ?thesis using False nonneg ne
        by (simp add: binIndex_def edge_clamped_bucket_def)
    qed
  qed
qed

lemma edge_clamped_bucket_less: "0 < w \<Longrightarrow> edge_clamped_bucket w v < 10"
  unfolding edge_clamped_bucket_def
  by (auto simp: floor_less_iff pos_divide_less_eq nat_less_iff)

text \<open>Every sample has one bucket below \<open>n\<close>, so the counts add up to the samples.\<close>

lemma sum_counts_by_index:
  "(\<And>v. v \<in> set vs \<Longrightarrow> g v < n) \<Longrightarrow>
   (\<Sum>i\<leftarrow>[0..<n]. length (filter (\<lambda>v. g v = i) vs)) = length vs"
proof (induction vs)
  case Nil
  show ?case by simp
next
  case (Cons v vs)
  have "(\<Sum>i\<leftarrow>[0..<n]. length (filter (\<lambda>w. g w = i) (v # vs)))
      = (\<Sum>i\<leftarrow>[0..<n]. (if g v = i then 1 else 0) + length (filter (\<lambda>w. g w = i) vs))"
    by (rule arg_cong[where f=sum_list]) auto
  also have "\<dots> = (\<Sum>i\<leftarrow>[0..<n]. if g v = i then 1 else 0)
                  + (\<Sum>i\<leftarrow>[0..<n]. length (filter (\<lambda>w. g w = i) vs))"
    by (simp add: sum_list_addf)
  also have "(\<Sum>i\<leftarrow>[0..<n]. if g v = i then 1 else 0) = (1::nat)"
    using Cons.prems[of v] by (simp add: interv_sum_list_conv_sum_set_nat)
  finally show ?case using Cons by simp
qed

lemma createHistogram_ten:
  assumes "0 < w"
  shows "createHistogram vs 10 0 (10 * w) = bucket_counts w vs"
proof -
  have "foldl (\<lambda>h v. increment h (binIndex 10 0 (10 * w) v)) (replicate 10 0) vs =
        map (\<lambda>i. replicate 10 0 ! i + length (filter (\<lambda>v. edge_clamped_bucket w v = i) vs))
          [0..<length (replicate 10 (0::nat))]"
    by (rule foldl_increment_counts)
       (simp add: binIndex_ten[OF assms] edge_clamped_bucket_less[OF assms])
  also have "\<dots> = bucket_counts w vs"
    unfolding bucket_counts_def by (rule map_cong) simp_all
  finally show ?thesis by (simp add: createHistogram_def)
qed

lemma sum_list_bucket_counts: "0 < w \<Longrightarrow> sum_list (bucket_counts w vs) = length vs"
  unfolding bucket_counts_def
  by (rule sum_counts_by_index) (simp add: edge_clamped_bucket_less)

text \<open>
  Claim C9. The dwell histogram of the exported report is the ten bucket counts of
  width 20 ms over 0 to 200 ms of the dwell samples, the flight histogram the ten
  bucket counts of width 30 ms over 0 to 300 ms of the flight samples, a sample outside
  the range counted in the nearest edge bucket. Each histogram has ten entries and its
  entries add up to the number of samples.
\<close>

theorem report_histograms_are_clamped_bucket_counts:
  "dwell_histogram (timing_data (exportedReport env calls s txt now isoDate uuid)) =
     bucket_counts 20 (dwellTimes (calculateStats s now)) \<and>
   flight_histogram (timing_data (exportedReport env calls s txt now isoDate uuid)) =
     bucket_counts 30 (flightTimes (calculateStats s now)) \<and>
   length (dwell_histogram (timing_data (exportedReport env calls s txt now isoDate uuid))) = 10 \<and>
   length (flight_histogram (timing_data (exportedReport env calls s txt now isoDate uuid))) = 10 \<and>
   sum_list (dwell_histogram (timing_data (exportedReport env calls s txt now isoDate uuid))) =
     length (dwellTimes (calculateStats s now)) \<and>
   sum_list (flight_histogram (timing_data (exportedReport env calls s txt now isoDate uuid))) =
     length (flightTimes (calculateStats s now))"
proof -
  have d: "createHistogram vs 10 0 200 = bucket_counts 20 vs" for vs
    using createHistogram_ten[of 20 vs] by simp
  have f: "createHistogram vs 10 0 300 = bucket_counts 30 vs" for vs
    using createHistogram_ten[of 30 vs] by simp
  have len: "length (bucket_counts w vs) = 10" for w vs
    by (simp add: bucket_counts_def)
  show ?thesis
    by (simp add: exported_timing_data d f sum_list_bucket_counts len)
qed

section \<open>The hash of the keystroke buffer\<close>

lemma sameTiming_timingOnly: "sameTiming x y \<Longrightarrow> timingOnly x = timingOnly y"
  by (simp add: sameTiming_def timingOnly_def)

lemma map_timingOnly_cong:
  "list_all2 sameTiming xs ys \<Longrightarrow> map timingOnly xs = map timingOnly ys"
  by (induction rule: list_all2_induct) (simp_all add: sameTiming_timingOnly)

text \<open>
  Claim C10. Two event lists of equal length whose events agree pairwise on the event
  type, the key code and the rounded timestamp (\<open>list_all2 sameTiming\<close>) have the same
  \<open>hashKeystrokeBuffer\<close> digest, whatever their \<open>key_char\<close> values are, and for every
  digest function of the platform.
\<close>

theorem hashKeystrokeBuffer_ignores_key_char:
  assumes "list_all2 sameTiming xs ys"
  shows "hashKeystrokeBuffer env xs = hashKeystrokeBuffer env ys"
  using map_timingOnly_cong[OF assms]
  by (simp add: hashKeystrokeBuffer_def serializeEvents_def)

lemma lower_upper_sameTiming: "list_all2 sameTiming typed_lower_a typed_upper_a"
  by code_simp

text \<open>Claim C10 at the key \<open>a\<close> typed as \<open>a\<close> and as \<open>A\<close>.\<close>

theorem hashKeystrokeBuffer_ignores_key_char_witness:
  "list_all2 sameTiming typed_lower_a typed_upper_a \<and>
   map key_char typed_lower_a \<noteq> map key_char typed_upper_a \<and>
   hashKeystrokeBuffer testCrypto typed_lower_a = hashKeystrokeBuffer testCrypto typed_upper_a"
proof -
  have "map key_char typed_lower_a \<noteq> map key_char typed_upper_a"
    by (simp add: typed_lower_a_def typed_upper_a_def)
  then show ?thesis
    using hashKeystrokeBuffer_ignores_key_char[OF lower_upper_sameTiming, of testCrypto]
      lower_upper_sameTiming
    by simp
qed

section \<open>The verification status of an uploaded report\<close>

text \<open>
  Claim C4. \<open>verifySignature\<close> ends in one of \<open>valid\<close>, \<open>invalid\<close> and \<open>none\<close> (never
  \<open>pending\<close>). It is \<open>none\<close> exactly when the public key or the signature value is
  missing or empty. It is \<open>valid\<close> exactly when both are present, both decode, the key
  imports, the report has a session and the platform's verification returns true.
  Key or signature material that does not decode or import gives \<open>invalid\<close>; nothing is
  thrown to the caller, since the function is total on parsed reports.
\<close>

theorem verifySignature_three_outcomes:
  "verifySignature env data \<noteq> Pending \<and>
   (verifySignature env data = Status_none \<longleftrightarrow>
      \<not> truthy (signaturePublicKey data) \<or> \<not> truthy (signatureValue data)) \<and>
   (verifySignature env data = Valid \<longleftrightarrow>
      truthy (signaturePublicKey data) \<and> truthy (signatureValue data) \<and>
      (\<exists>der publicKey sigBytes sess.
          atob env (orElse (signaturePublicKey data) []) = Some der \<and>
          importKey_spki env der = Some publicKey \<and>
          atob env (orElse (signatureValue data) []) = Some sigBytes \<and>
          parsed_session data = Some sess \<and>
          verify_ECDSA env publicKey sigBytes
            (JSON_stringify env (parsed_content_hash data) (parsed_metrics data) (parsed_id sess))
          = Some True)) \<and>
   (truthy (signaturePublicKey data) \<and> truthy (signatureValue data) \<and>
    (atob env (orElse (signaturePublicKey data) []) = None \<or>
     atob env (orElse (signatureValue data) []) = None \<or>
     (\<exists>der. atob env (orElse (signaturePublicKey data) []) = Some der \<and>
            importKey_spki env der = None))
    \<longrightarrow> verifySignature env data = Invalid)"
  unfolding verifySignature_def Let_def
  by (auto split: option.splits)

lemma signed_report_facts:
  "truthy (signaturePublicKey parsed_signed_report)"
  "truthy (signatureValue parsed_signed_report)"
  "atob testCrypto (orElse (signaturePublicKey parsed_signed_report) []) = Some [1]"
  "importKey_spki testCrypto [1] = Some 1"
  "atob testCrypto (orElse (signatureValue parsed_signed_report) []) =
     Some [1, 97, 98, 44, 115, 49]"
  "verify_ECDSA testCrypto 1 [1, 97, 98, 44, 115, 49]
     (JSON_stringify testCrypto (parsed_content_hash parsed_signed_report)
        (parsed_metrics parsed_signed_report) (Some ''s1'')) = Some True"
  by (simp_all add: parsed_signed_report_def signaturePublicKey_def signatureValue_def
        truthy_def orElse_def testCrypto_def charByte_def)

text \<open>
  Claim C4 at three reports: a signed one is \<open>valid\<close>, one with empty signature fields
  is \<open>none\<close>, one whose public key does not decode is \<open>invalid\<close>.
\<close>

theorem verifySignature_three_outcomes_witness:
  "verifySignature testCrypto parsed_signed_report = Valid \<and>
   verifySignature testCrypto parsed_unsigned_report = Status_none \<and>
   verifySignature testCrypto parsed_malformed_report = Invalid"
proof -
  have "verifySignature testCrypto parsed_signed_report = Valid"
    using verifySignature_three_outcomes[of testCrypto parsed_signed_report] signed_report_facts
    by (simp add: parsed_signed_report_def)
  moreover have "verifySignature testCrypto parsed_unsigned_report = Status_none"
    using verifySignature_three_outcomes[of testCrypto parsed_unsigned_report]
    by (simp add: parsed_unsigned_report_def signaturePublicKey_def truthy_def)
  moreover have "verifySignature testCrypto parsed_malformed_report = Invalid"
    using verifySignature_three_outcomes[of testCrypto parsed_malformed_report]
    by (simp add: parsed_malformed_report_def signaturePublicKey_def signatureValue_def
          truthy_def orElse_def testCrypto_def)
  ultimately show ?thesis by simp
qed

section \<open>Signing a report and verifying it\<close>

lemma exportedReport_signReport:
  "exportedReport env calls s txt now isoDate uuid =
     fst (signReport env calls (humanSignData env s txt now isoDate uuid))"
  by (simp add: exportedReport_def handle_DOWNLOAD_COMBINED_def Let_def)

lemma signReport_success:
  assumes "generateKey env calls = Some (publicKey, privateKey)"
    and "exportKey_spki env publicKey = Some der"
    and "sign_ECDSA env privateKey (dataToSign env d) = Some sg"
  shows "fst (signReport env calls d) =
           d\<lparr>signature := (signature d)\<lparr>public_key := btoa env der,
                                         signature_value := btoa env sg\<rparr>\<rparr>"
  using assms by (simp add: signReport_def dataToSign_def Let_def)

text \<open>
  On a report whose two signature fields decode and whose key imports, the decoder's
  status is the platform's answer for the bytes rebuilt from the report.
\<close>

lemma verifySignature_parseExported:
  assumes "btoa env der \<noteq> []" "atob env (btoa env der) = Some der"
    and "btoa env sg \<noteq> []" "atob env (btoa env sg) = Some sg"
    and "importKey_spki env der = Some publicKey"
    and "public_key (signature r) = btoa env der"
    and "signature_value (signature r) = btoa env sg"
  shows "verifySignature env (parseExported r) =
           (case verify_ECDSA env publicKey sg (dataToSign env r) of
              None \<Rightarrow> Invalid
            | Some isValid \<Rightarrow> if isValid then Valid else Invalid)"
  using assms
  by (simp add: verifySignature_def parseExported_def signaturePublicKey_def signatureValue_def
        truthy_def orElse_def dataToSign_def Let_def)

lemma signed_report_round_trip:
  assumes key: "generateKey env calls = Some (publicKey, privateKey)"
    and spki: "exportKey_spki env publicKey = Some der"
    and sig: "sign_ECDSA env privateKey (dataToSign env d) = Some sg"
    and key64: "btoa env der \<noteq> []" "atob env (btoa env der) = Some der"
    and sig64: "btoa env sg \<noteq> []" "atob env (btoa env sg) = Some sg"
    and imp: "importKey_spki env der = Some publicKey"
    and own: "verify_ECDSA env publicKey sg (dataToSign env d) = Some True"
    and other: "\<And>m. m \<noteq> dataToSign env d \<Longrightarrow> verify_ECDSA env publicKey sg m = Some False"
    and json: "\<And>h. h \<noteq> content_hash d \<Longrightarrow>
                 dataToSign env (d\<lparr>content_hash := h\<rparr>) \<noteq> dataToSign env d"
  shows "signature_value (signature (fst (signReport env calls d))) = btoa env sg \<and>
         public_key (signature (fst (signReport env calls d))) = btoa env der \<and>
         verifySignature env (parseExported (fst (signReport env calls d))) = Valid \<and>
         (\<forall>h. h \<noteq> content_hash d \<longrightarrow>
            verifySignature env (parseExported ((fst (signReport env calls d))\<lparr>content_hash := h\<rparr>))
            = Invalid)"
proof -
  let ?r = "fst (signReport env calls d)"
  have r: "?r = d\<lparr>signature := (signature d)\<lparr>public_key := btoa env der,
                                             signature_value := btoa env sg\<rparr>\<rparr>"
    by (rule signReport_success[OF key spki sig])
  have same: "dataToSign env ?r = dataToSign env d"
    by (simp add: r dataToSign_def)
  have valid: "verifySignature env (parseExported ?r) = Valid"
    using verifySignature_parseExported[OF key64 sig64 imp, of ?r] own
    by (simp add: r same[unfolded r])
  have invalid: "verifySignature env (parseExported (?r\<lparr>content_hash := h\<rparr>)) = Invalid"
    if "h \<noteq> content_hash d" for h
  proof -
    have "dataToSign env (?r\<lparr>content_hash := h\<rparr>) = dataToSign env (d\<lparr>content_hash := h\<rparr>)"
      by (simp add: r dataToSign_def)
    with json[OF that] have "dataToSign env (?r\<lparr>content_hash := h\<rparr>) \<noteq> dataToSign env d"
      by simp
    from other[OF this] show ?thesis
      using verifySignature_parseExported[OF key64 sig64 imp, of "?r\<lparr>content_hash := h\<rparr>"]
      by (simp add: r)
  qed
  show ?thesis using valid invalid by (simp add: r)
qed

text \<open>
  Claim C3. The export signs \<open>JSON.stringify\<close> of the report's content hash, metrics and
  session id with the private key of the pair it generates, and embeds the public key.
  On a platform that does its part (the key exports and imports back, base64 decodes
  what it encoded, ECDSA accepts the signature for the signed bytes and for no other
  message, and \<open>JSON.stringify\<close> gives different strings for different content hashes) the
  decoder finds the exported report \<open>valid\<close>, and \<open>invalid\<close> after any change of its
  \<open>content_hash\<close>, a change of one byte included. ECDSA is idealised here: a real
  signature is unforgeable, not unmatchable.
\<close>

theorem signed_report_verifies_and_detects_hash_change:
  assumes key: "generateKey env calls = Some (publicKey, privateKey)"
    and spki: "exportKey_spki env publicKey = Some der"
    and sig: "sign_ECDSA env privateKey
                (dataToSign env (humanSignData env s txt now isoDate uuid)) = Some sg"
    and key64: "btoa env der \<noteq> []" "atob env (btoa env der) = Some der"
    and sig64: "btoa env sg \<noteq> []" "atob env (btoa env sg) = Some sg"
    and imp: "importKey_spki env der = Some publicKey"
    and own: "verify_ECDSA env publicKey sg
                (dataToSign env (humanSignData env s txt now isoDate uuid)) = Some True"
    and other: "\<And>m. m \<noteq> dataToSign env (humanSignData env s txt now isoDate uuid) \<Longrightarrow>
                  verify_ECDSA env publicKey sg m = Some False"
    and json: "\<And>h. h \<noteq> content_hash (humanSignData env s txt now isoDate uuid) \<Longrightarrow>
                 dataToSign env ((humanSignData env s txt now isoDate uuid)\<lparr>content_hash := h\<rparr>)
                 \<noteq> dataToSign env (humanSignData env s txt now isoDate uuid)"
  shows "signature_value (signature (exportedReport env calls s txt now isoDate uuid)) = btoa env sg \<and>
         public_key (signature (exportedReport env calls s txt now isoDate uuid)) = btoa env der \<and>
         verifySignature env (parseExported (exportedReport env calls s txt now isoDate uuid)) = Valid \<and>
         (\<forall>h. h \<noteq> content_hash (exportedReport env calls s txt now isoDate uuid) \<longrightarrow>
            verifySignature env
              (parseExported ((exportedReport env calls s txt now isoDate uuid)\<lparr>content_hash := h\<rparr>))
            = Invalid)"
proof -
  have h: "content_hash (fst (signReport env calls (humanSignData env s txt now isoDate uuid))) =
           content_hash (humanSignData env s txt now isoDate uuid)"
    by (simp add: signReport_success[OF key spki sig])
  show ?thesis
    unfolding exportedReport_signReport h
    by (rule signed_report_round_trip
               [OF key spki sig key64 sig64 imp own other json])
qed

text \<open>The stand-in platform does its part: its bytes of a message determine the message.\<close>

lemma charByte_inj: "charByte a = charByte b \<Longrightarrow> a = b"
proof -
  assume "charByte a = charByte b"
  then have "unat (of_nat (of_char a) :: 8 word) = unat (of_nat (of_char b) :: 8 word)"
    by (simp add: charByte_def)
  then have "(of_char a :: nat) mod 256 = of_char b mod 256"
    by (simp add: unat_of_nat)
  then show "a = b" by simp
qed

lemma map_charByte_inj: "map charByte m = map charByte m' \<Longrightarrow> m = m'"
  by (induction m arbitrary: m') (auto dest: charByte_inj)

lemma example_hash: "content_hash unsigned_example = ''0514''"
  by code_simp

lemma example_hex_roundtrip:
  "atob testCrypto (btoa testCrypto (1 # map charByte (dataToSign testCrypto unsigned_example))) =
     Some (1 # map charByte (dataToSign testCrypto unsigned_example))"
  "btoa testCrypto (1 # map charByte (dataToSign testCrypto unsigned_example)) \<noteq> []"
  "atob testCrypto (btoa testCrypto [1]) = Some [1]"
  "btoa testCrypto [1] \<noteq> []"
  by code_simp+

text \<open>
  Claim C3 at the export of the session of fifteen typed characters with the text
  \<open>hello\<close>: the report verifies, and with the last digit of its content hash changed
  from 4 to 5 it does not.
\<close>

theorem signed_report_verifies_and_detects_hash_change_witness:
  "content_hash exported_example = ''0514'' \<and>
   verifySignature testCrypto (parseExported exported_example) = Valid \<and>
   verifySignature testCrypto (parseExported (exported_example\<lparr>content_hash := ''0515''\<rparr>)) = Invalid"
proof -
  let ?d = "humanSignData testCrypto session_of_fifteen_typed (Some ''hello'') 60000
       ''2026-01-01T00:00:00.000Z'' ''uuid''"
  let ?sg = "1 # map charByte (dataToSign testCrypto ?d)"
  have key: "generateKey testCrypto 0 = Some (1, 101)"
    and spki: "exportKey_spki testCrypto 1 = Some [1]"
    and imp: "importKey_spki testCrypto [1] = Some 1"
    by (simp_all add: testCrypto_def)
  have sig: "sign_ECDSA testCrypto 101 (dataToSign testCrypto ?d) = Some ?sg"
    by (simp add: testCrypto_def)
  have own: "verify_ECDSA testCrypto 1 ?sg (dataToSign testCrypto ?d) = Some True"
    by (simp add: testCrypto_def)
  have other: "verify_ECDSA testCrypto 1 ?sg m = Some False"
    if "m \<noteq> dataToSign testCrypto ?d" for m
    using that map_charByte_inj[of "dataToSign testCrypto ?d" m]
    by (auto simp: testCrypto_def)
  have json: "dataToSign testCrypto (?d\<lparr>content_hash := h\<rparr>) \<noteq> dataToSign testCrypto ?d"
    if "h \<noteq> content_hash ?d" for h
    using that by (simp add: dataToSign_def testCrypto_def orElse_def)
  have hash: "content_hash exported_example = ''0514''"
    using example_hash
    by (simp add: exported_example_def unsigned_example_def exportedReport_signReport
          signReport_success[OF key spki sig])
  note facts = signed_report_verifies_and_detects_hash_change
            [OF key spki sig
                example_hex_roundtrip(4)[unfolded unsigned_example_def]
                example_hex_roundtrip(3)[unfolded unsigned_example_def]
                example_hex_roundtrip(2)[unfolded unsigned_example_def]
                example_hex_roundtrip(1)[unfolded unsigned_example_def]
                imp own other json, folded exported_example_def]
  have valid: "verifySignature testCrypto (parseExported exported_example) = Valid"
    using facts by simp
  have "''0515'' \<noteq> content_hash exported_example"
    by (simp add: hash)
  with facts have
    "verifySignature testCrypto (parseExported (exported_example\<lparr>content_hash := ''0515''\<rparr>))
     = Invalid"
    by blast
  with hash valid show ?thesis by simp
qed

section \<open>What the capture path and the signer do establish\<close>

text \<open>
  One event of a batch changes at most one counter of the background's ledger, and
  never the pasted one.
\<close>

lemma countEvent_one_counter:
  "totalPastedChars (countEvent s e) = totalPastedChars s \<and>
   (totalTypedChars (countEvent s e) = totalTypedChars s \<and>
      totalAiChars (countEvent s e) = totalAiChars s
    \<or> totalTypedChars (countEvent s e) = totalTypedChars s + 1 \<and>
      totalAiChars (countEvent s e) = totalAiChars s
    \<or> totalTypedChars (countEvent s e) = totalTypedChars s \<and>
      totalAiChars (countEvent s e) > totalAiChars s)"
  by (simp add: countEvent_def)

text \<open>The synthesized keystrokes of an assistant insertion are not counted as typed.\<close>

lemma countEvent_burst_keystrokes:
  "foldl countEvent s (fst (aiBurstLoop random i t chars)) = s"
  by (induction chars arbitrary: i t) (simp_all add: Let_def countEvent_def)

lemma batchVerdict_ledger:
  "totalTypedChars (batchVerdict s) = totalTypedChars s"
  "totalPastedChars (batchVerdict s) = totalPastedChars s"
  "totalAiChars (batchVerdict s) = totalAiChars s"
  by (simp_all add: batchVerdict_def Let_def)

text \<open>
  The events of one assistant insertion, delivered as a batch, add the length of the
  inserted text to the assistant counter of the background worker and nothing to its two
  other counters.
\<close>

lemma ai_insert_counted_once_by_background:
  assumes "chars \<noteq> []"
  shows "totalAiChars (handle_KEYSTROKE_BATCH s (aiBurstEvents random now chars)) =
           totalAiChars s + length chars \<and>
         totalTypedChars (handle_KEYSTROKE_BATCH s (aiBurstEvents random now chars)) =
           totalTypedChars s \<and>
         totalPastedChars (handle_KEYSTROKE_BATCH s (aiBurstEvents random now chars)) =
           totalPastedChars s"
  using assms
  by (simp add: handle_KEYSTROKE_BATCH_def aiBurstEvents_def Let_def batchVerdict_ledger
        countEvent_burst_keystrokes countEvent_def)

text \<open>The tracker's \<open>start()\<close> does nothing while it is tracking.\<close>

lemma start_idempotent_while_tracking:
  "isTracking tr \<Longrightarrow> start tr hostname response sendOk now = tr"
  by (simp add: start_def)

text \<open>
  While the buffer stays below a full batch, \<open>handleKeyDown\<close> of a tracking tracker
  appends its event, whatever the buffer already holds.
\<close>

lemma handleKeyDown_appends:
  assumes "isTracking tr" and "length (events tr) + 1 < BATCH_SIZE"
  shows "events (handleKeyDown tr event sendOk now) =
           events tr @ [\<lparr>event_type = Keydown, key_code = keyCode event,
               key_char = (if length (key event) = 1 then Some (key event) else None),
               client_timestamp = now, input_method = None\<rparr>]"
  using assms by (simp add: handleKeyDown_def scheduleFlush_def Let_def)

text \<open>
  \<open>getOrCreateKeyPair\<close> generates no key when the stored pair imports: it returns that
  pair and leaves the store and the number of \<open>generateKey\<close> calls as they are.
\<close>

lemma getOrCreateKeyPair_reuses_stored_pair:
  "importKeyPair env stored = Some keyPair \<Longrightarrow>
   getOrCreateKeyPair env calls (Some stored) = (Some keyPair, calls, Some stored)"
  by (simp add: getOrCreateKeyPair_def)

text \<open>
  When the signing of a report succeeds, the signed bytes are the JSON of the report's
  content hash, metrics and session id, the key is the private key of the pair generated
  by this call, and the report embeds that pair's public key. These are the three fields
  from which \<open>verifySignature\<close> rebuilds the bytes it verifies.
\<close>

lemma signReport_signs_hash_metrics_session:
  assumes "snd (signReport env calls d)"
  shows "\<exists>publicKey privateKey der sg.
           generateKey env calls = Some (publicKey, privateKey) \<and>
           exportKey_spki env publicKey = Some der \<and>
           sign_ECDSA env privateKey (dataToSign env d) = Some sg \<and>
           signature (fst (signReport env calls d)) =
             (signature d)\<lparr>public_key := btoa env der, signature_value := btoa env sg\<rparr>"
  using assms
  by (auto simp: signReport_def dataToSign_def Let_def split: option.splits prod.splits)

section \<open>Where the code departs from the specification\<close>

text \<open>
  Claim C1 says that typed + pasted + assistant equals the characters accepted in the
  session, each counted under one category. Evaluated on the code: after the editor
  announces the accepted suggestion \<open>hello\<close>, the tracker has counted its five
  characters as pasted while the background worker has counted them as assistant
  characters; and after that session is ended and a second one started, in which five
  characters are typed and nothing else happens, the ledger of the second session
  holds typed 5, pasted 0 and assistant 5, a total of 10 for 5 accepted characters,
  because \<open>START_SESSION\<close> does not reset \<open>totalAiChars\<close>.
\<close>

theorem assistant_insert_counted_as_pasted_and_carried_over:
  "tracker_totalPastedChars tracker_after_ai_insert = 5 \<and>
   tracker_totalTypedChars tracker_after_ai_insert = 0 \<and>
   totalAiChars background_after_ai_insert = 5 \<and>
   totalPastedChars background_after_ai_insert = 0 \<and>
   totalTypedChars background_after_ai_insert = 0 \<and>
   sessionId background_second_session = Some ''session-2'' \<and>
   length (filter (\<lambda>e. event_type e = Keydown) (keystrokes background_second_session)) = 5 \<and>
   totalTypedChars background_second_session = 5 \<and>
   totalPastedChars background_second_session = 0 \<and>
   totalAiChars background_second_session = 5 \<and>
   totalChars background_second_session = 10"
  by code_simp

text \<open>
  Claim C2 says that of an event submitted twice within the window only one is
  accepted. Evaluated on the code: the same keydown of the key \<open>a\<close>, handled twice at
  the same clock value, is buffered twice and counted as two typed characters, by the
  tracker and, once the buffer is flushed, by the background worker. The tracker has no
  duplicate check.
\<close>

theorem same_keydown_twice_is_accepted_twice:
  "events tracker_after_same_keydown_twice =
     [\<lparr>event_type = Keydown, key_code = 65, key_char = Some ''a'', client_timestamp = 1000,
       input_method = None\<rparr>,
      \<lparr>event_type = Keydown, key_code = 65, key_char = Some ''a'', client_timestamp = 1000,
       input_method = None\<rparr>] \<and>
   tracker_totalTypedChars tracker_after_same_keydown_twice = 2 \<and>
   totalTypedChars
     (handle_KEYSTROKE_BATCH
        (handle_START_SESSION state ''example.org'' (Inr ''session-1'') [] 0)
        (events tracker_after_same_keydown_twice)) = 2"
  by code_simp

text \<open>
  Claim C7 says that the key pair is generated once and every report embeds the same
  public key. Evaluated on the code: every \<open>DOWNLOAD_COMBINED\<close> calls \<open>generateKey\<close>
  once more, whatever the state and the platform; two exports in a row embed the public
  keys of the first and of the second generated pair.
\<close>

theorem every_export_generates_a_new_key_pair:
  "fst (snd (handle_DOWNLOAD_COMBINED env calls s txt now isoDate uuid)) = calls + 1 \<and>
   public_key (signature (snd (snd first_export))) = ''01'' \<and>
   public_key (signature (snd (snd second_export))) = ''02'' \<and>
   signatureCount (fst second_export) = 2"
proof -
  have "fst (snd (handle_DOWNLOAD_COMBINED env calls s txt now isoDate uuid)) = calls + 1"
    by (simp add: handle_DOWNLOAD_COMBINED_def Let_def)
  moreover have "public_key (signature (snd (snd first_export))) = ''01''"
    by code_simp
  moreover have "public_key (signature (snd (snd second_export))) = ''02''"
    by code_simp
  moreover have "signatureCount (fst second_export) = 2"
    by code_simp
  ultimately show ?thesis by simp
qed

text \<open>
  Claim C8 says that entering Recording resets the typed, the pasted and the assistant
  counter. Evaluated on the code: \<open>START_SESSION\<close> empties the two buffers and sets the
  typed and the pasted counter to zero, and leaves the assistant counter as it was; in
  the example the second session starts with five assistant characters.
\<close>

theorem START_SESSION_leaves_assistant_counter:
  "totalTypedChars (handle_START_SESSION s host remote uuid now) = 0 \<and>
   totalPastedChars (handle_START_SESSION s host remote uuid now) = 0 \<and>
   keystrokes (handle_START_SESSION s host remote uuid now) = [] \<and>
   pasteEvents (handle_START_SESSION s host remote uuid now) = [] \<and>
   isRecording (handle_START_SESSION s host remote uuid now) \<and>
   totalAiChars (handle_START_SESSION s host remote uuid now) = totalAiChars s \<and>
   totalAiChars (handle_START_SESSION (handle_END_SESSION background_after_ai_insert)
     ''example.org'' (Inr ''session-2'') [] 3000) = 5"
proof -
  have "totalAiChars background_after_ai_insert = 5" by code_simp
  then show ?thesis
    by (simp add: handle_START_SESSION_def handle_END_SESSION_def split: sum.split)
qed

end
